theory Spec2Isabelle
  imports Main "HOL-Library.Word" "HOL-Library.AList"
begin

section \<open>JSON documents and generic values\<close>

text \<open>
  Every message of the driver-manager protocol is one JSON document per line, written
  and read with Go's \<^verbatim>\<open>encoding/json\<close>. The text layer of that library (lexing,
  escaping, number formatting) is outside the repository; a document is represented by
  its tree. An object keeps its members in the order of the text, duplicates included.
  A number is its literal: an integer literal, or the text of a literal with a fraction
  or an exponent.

  The same trees stand for the generic values (\<^verbatim>\<open>interface{}\<close>,
  \<^verbatim>\<open>map[string]interface{}\<close>) that the decoder builds and the encoder reads: a
  value held in an interface is represented by the document the encoder writes for it.
  So two Go values that are written alike (the \<^verbatim>\<open>int\<close> 2 and the \<^verbatim>\<open>float64\<close> 2
  the decoder makes of its literal, a struct and the map of its fields) are one tree, and
  equality of two trees is equality of what is written, not of the Go values; a value
  the encoder refuses (a channel, a function, a NaN) has no tree. Where the library turns
  a number held in a generic value into a \<^verbatim>\<open>float64\<close>, the tree keeps the literal.
  Strings are taken to be valid UTF-8, which the encoder preserves; it replaces every
  other byte by U+FFFD.
\<close>

datatype json =
    JNull
  | JBool bool
  | JInt int
  | JFloat string
  | JStr string
  | JArr "json list"
  | JObj "(string \<times> json) list"

type_synonym object = "(string \<times> json) list"

text \<open>
  Indexing a Go map that was decoded from an object: a later member with the same key
  has overwritten an earlier one. A missing key gives the nil interface.
\<close>

definition index :: "object \<Rightarrow> string \<Rightarrow> json option" where
  "index kvs k = map_of (rev kvs) k"

text \<open>Indexing a map that may be nil (\<^verbatim>\<open>msg.Params["driver"]\<close>).\<close>

definition index_nilable :: "object option \<Rightarrow> string \<Rightarrow> json option" where
  "index_nilable m k = (case m of None \<Rightarrow> None | Some kvs \<Rightarrow> index kvs k)"

text \<open>The type assertions \<^verbatim>\<open>v.(string)\<close>, \<^verbatim>\<open>v.(map[string]interface{})\<close>
  and \<^verbatim>\<open>v.(bool)\<close> with their \<^verbatim>\<open>ok\<close> result.\<close>

fun as_string :: "json option \<Rightarrow> string option" where
  "as_string (Some (JStr s)) = Some s"
| "as_string _ = None"

fun as_map :: "json option \<Rightarrow> object option" where
  "as_map (Some (JObj kvs)) = Some kvs"
| "as_map _ = None"

fun as_bool :: "json option \<Rightarrow> bool option" where
  "as_bool (Some (JBool b)) = Some b"
| "as_bool _ = None"

section \<open>The wire message (protocol.go, client.go: Message, ErrorInfo)\<close>

text \<open>
  \<^verbatim>\<open>
  type Message struct {
      ID      string                 `json:"id"`
      Type    string                 `json:"type"`
      Method  string                 `json:"method,omitempty"`
      Params  map[string]interface{} `json:"params,omitempty"`
      Result  interface{}            `json:"result,omitempty"`
      Error   *ErrorInfo             `json:"error,omitempty"`
  }
  type ErrorInfo struct {
      Code    int    `json:"code"`
      Message string `json:"message"`
  }
  \<close>
  A map, an interface and a pointer can be nil: they are options. \<^verbatim>\<open>int\<close> is the
  64-bit integer of the platforms the program is built for.
\<close>

record ErrorInfo =
  Code :: "64 word"
  Message :: string

record Message =
  ID :: string
  Type :: string
  Method :: string
  Params :: "object option"
  Result :: "json option"
  Error :: "ErrorInfo option"

definition zero_Message :: Message where
  "zero_Message = \<lparr>ID = [], Type = [], Method = [], Params = None, Result = None, Error = None\<rparr>"

definition zero_ErrorInfo :: ErrorInfo where
  "zero_ErrorInfo = \<lparr>Code = 0, Message = []\<rparr>"

subsection \<open>Encoding (json.Marshal of a Message)\<close>

text \<open>
  The members appear in the order of the fields. \<^verbatim>\<open>omitempty\<close> leaves out an empty
  string, a map of length 0 (nil or not), a nil interface and a nil pointer.
\<close>

definition marshal_ErrorInfo :: "ErrorInfo \<Rightarrow> json" where
  "marshal_ErrorInfo e = JObj [(''code'', JInt (sint (Code e))), (''message'', JStr (Message e))]"

definition marshal_Message :: "Message \<Rightarrow> json" where
  "marshal_Message m = JObj
     ([(''id'', JStr (ID m)), (''type'', JStr (Type m))]
      @ (if Method m = [] then [] else [(''method'', JStr (Method m))])
      @ (case Params m of
           None \<Rightarrow> []
         | Some kvs \<Rightarrow> if kvs = [] then [] else [(''params'', JObj kvs)])
      @ (case Result m of None \<Rightarrow> [] | Some v \<Rightarrow> [(''result'', v)])
      @ (case Error m of None \<Rightarrow> [] | Some e \<Rightarrow> [(''error'', marshal_ErrorInfo e)]))"




subsection \<open>Decoding (json.Unmarshal into a Message)\<close>

text \<open>
  The decoder reports a syntax error before it stores anything. Otherwise it walks the
  members of the object in order, finds the field whose name matches the key (exactly
  or ignoring the case of ASCII letters; the two non-ASCII letters that Unicode folds
  onto \<^verbatim>\<open>k\<close> and \<^verbatim>\<open>s\<close> are left out), and stores the value. A value of the wrong
  kind leaves the field as it is and is remembered as the error to return (the first
  one wins); decoding goes on. \<^verbatim>\<open>null\<close> resets a map, an interface or a pointer to
  nil and leaves a string or an integer untouched. A document that is \<^verbatim>\<open>null\<close>
  stores nothing and is no error; any other document that is not an object is a type
  error.
\<close>

datatype json_error =
    SyntaxError string
  | UnmarshalTypeError string string

definition lower_char :: "char \<Rightarrow> char" where
  "lower_char c =
     (let n = (of_char c :: nat) in if 65 \<le> n \<and> n \<le> 90 then char_of (n + 32) else c)"

definition fold_key :: "string \<Rightarrow> string" where
  "fold_key k = map lower_char k"

fun json_kind :: "json \<Rightarrow> string" where
  "json_kind JNull = ''null''"
| "json_kind (JBool _) = ''bool''"
| "json_kind (JInt _) = ''number''"
| "json_kind (JFloat _) = ''number''"
| "json_kind (JStr _) = ''string''"
| "json_kind (JArr _) = ''array''"
| "json_kind (JObj _) = ''object''"

definition saveError :: "json_error option \<Rightarrow> json_error \<Rightarrow> json_error option" where
  "saveError saved e = (case saved of None \<Rightarrow> Some e | Some e0 \<Rightarrow> Some e0)"

text \<open>A string field: a JSON string is stored, null is skipped, anything else is an error.\<close>

definition decode_string :: "string \<Rightarrow> json \<Rightarrow> string \<Rightarrow> string option + json_error" where
  "decode_string field v goType =
     (case v of
        JStr s \<Rightarrow> Inl (Some s)
      | JNull \<Rightarrow> Inl None
      | _ \<Rightarrow> Inr (UnmarshalTypeError (json_kind v) goType))"

text \<open>An \<^verbatim>\<open>int\<close> field: only an integer literal within the 64-bit range is stored.\<close>

definition decode_int :: "json \<Rightarrow> (64 word) option + json_error" where
  "decode_int v =
     (case v of
        JInt n \<Rightarrow>
          if - (2 ^ 63) \<le> n \<and> n < 2 ^ 63 then Inl (Some (word_of_int n))
          else Inr (UnmarshalTypeError ''number'' ''int'')
      | JNull \<Rightarrow> Inl None
      | _ \<Rightarrow> Inr (UnmarshalTypeError (json_kind v) ''int''))"

definition ErrorInfo_member ::
  "ErrorInfo \<times> json_error option \<Rightarrow> string \<times> json \<Rightarrow> ErrorInfo \<times> json_error option" where
  "ErrorInfo_member st kv =
     (let e = fst st; saved = snd st; f = fold_key (fst kv); v = snd kv in
      if f = ''code'' then
        (case decode_int v of
           Inl None \<Rightarrow> (e, saved)
         | Inl (Some c) \<Rightarrow> (e\<lparr>Code := c\<rparr>, saved)
         | Inr err \<Rightarrow> (e, saveError saved err))
      else if f = ''message'' then
        (case decode_string ''message'' v ''string'' of
           Inl None \<Rightarrow> (e, saved)
         | Inl (Some s) \<Rightarrow> (e\<lparr>Message := s\<rparr>, saved)
         | Inr err \<Rightarrow> (e, saveError saved err))
      else (e, saved))"

text \<open>
  The member that matched a field of Message. A pointer that is nil is allocated before
  the value is looked at, so a value of the wrong kind for \<^verbatim>\<open>error\<close> leaves a zero
  ErrorInfo behind; an object for \<^verbatim>\<open>params\<close> is stored into the map already there.
\<close>

definition Message_member ::
  "Message \<times> json_error option \<Rightarrow> string \<times> json \<Rightarrow> Message \<times> json_error option" where
  "Message_member st kv =
     (let m = fst st; saved = snd st; f = fold_key (fst kv); v = snd kv in
      if f = ''id'' then
        (case decode_string ''id'' v ''string'' of
           Inl None \<Rightarrow> (m, saved)
         | Inl (Some s) \<Rightarrow> (m\<lparr>ID := s\<rparr>, saved)
         | Inr err \<Rightarrow> (m, saveError saved err))
      else if f = ''type'' then
        (case decode_string ''type'' v ''string'' of
           Inl None \<Rightarrow> (m, saved)
         | Inl (Some s) \<Rightarrow> (m\<lparr>Type := s\<rparr>, saved)
         | Inr err \<Rightarrow> (m, saveError saved err))
      else if f = ''method'' then
        (case decode_string ''method'' v ''string'' of
           Inl None \<Rightarrow> (m, saved)
         | Inl (Some s) \<Rightarrow> (m\<lparr>Method := s\<rparr>, saved)
         | Inr err \<Rightarrow> (m, saveError saved err))
      else if f = ''params'' then
        (case v of
           JNull \<Rightarrow> (m\<lparr>Params := None\<rparr>, saved)
         | JObj kvs \<Rightarrow>
             (m\<lparr>Params := Some ((case Params m of None \<Rightarrow> [] | Some old \<Rightarrow> old) @ kvs)\<rparr>, saved)
         | _ \<Rightarrow> (m, saveError saved (UnmarshalTypeError (json_kind v) ''map[string]interface {}'')))
      else if f = ''result'' then
        (case v of
           JNull \<Rightarrow> (m\<lparr>Result := None\<rparr>, saved)
         | _ \<Rightarrow> (m\<lparr>Result := Some v\<rparr>, saved))
      else if f = ''error'' then
        (case v of
           JNull \<Rightarrow> (m\<lparr>Error := None\<rparr>, saved)
         | JObj kvs \<Rightarrow>
             (let r = foldl ErrorInfo_member
                        ((case Error m of None \<Rightarrow> zero_ErrorInfo | Some old \<Rightarrow> old), saved) kvs
              in (m\<lparr>Error := Some (fst r)\<rparr>, snd r))
         | _ \<Rightarrow>
             (m\<lparr>Error := Some (case Error m of None \<Rightarrow> zero_ErrorInfo | Some old \<Rightarrow> old)\<rparr>,
              saveError saved (UnmarshalTypeError (json_kind v) ''ErrorInfo'')))
      else (m, saved))"

definition unmarshal_Message :: "json \<Rightarrow> Message \<times> json_error option" where
  "unmarshal_Message doc =
     (case doc of
        JObj kvs \<Rightarrow> foldl Message_member (zero_Message, None) kvs
      | JNull \<Rightarrow> (zero_Message, None)
      | _ \<Rightarrow> (zero_Message, Some (UnmarshalTypeError (json_kind doc) ''Message'')))"

subsection \<open>Received lines\<close>

text \<open>
  A line of the scanner after \<^verbatim>\<open>strings.TrimSpace\<close>: empty, text that is not a
  JSON document (with the syntax error the library reports), or a JSON document.
\<close>

datatype line = Blank | Malformed string | Doc json

definition Unmarshal :: "line \<Rightarrow> Message \<times> json_error option" where
  "Unmarshal l =
     (case l of
        Blank \<Rightarrow> (zero_Message, Some (SyntaxError ''unexpected end of JSON input''))
      | Malformed why \<Rightarrow> (zero_Message, Some (SyntaxError why))
      | Doc doc \<Rightarrow> unmarshal_Message doc)"

text \<open>The text of a decoding error (\<^verbatim>\<open>%v\<close> of the library's error, abbreviated).\<close>

fun json_error_text :: "json_error \<Rightarrow> string" where
  "json_error_text (SyntaxError why) = why"
| "json_error_text (UnmarshalTypeError kind goType) =
     ''json: cannot unmarshal '' @ kind @ '' into Go value of type '' @ goType"

section \<open>Decimal rendering (\<^verbatim>\<open>%d\<close>)\<close>

fun digits :: "nat \<Rightarrow> string" where
  "digits n =
     (if n < 10 then [char_of (48 + n)] else digits (n div 10) @ [char_of (48 + n mod 10)])"

declare digits.simps [simp del]

definition show_int :: "int \<Rightarrow> string" where
  "show_int i = (if i < 0 then CHR ''-'' # digits (nat (- i)) else digits (nat i))"

section \<open>Errors\<close>

text \<open>
  Every error the modelled functions return, with the text \<^verbatim>\<open>err.Error()\<close> gives.
  A failure inside a driver or the socket is external: it carries the text it came with.
\<close>

datatype error =
    InstanceExists string
  | DriverNotFound string
  | GetDriverInfoFailed error
  | InitFailed string
  | InstanceNotFound string
  | DropFailed string
  | InstanceDisabled string
  | UnsupportedOperation string
  | PathRequired
  | NoGetSupport
  | NoOtherSupport
  | DriverFailure string
  | WriteFailed string
  | ProcessFailed error
  | ContextCanceled
  | ScannerError string
  | NotConnected
  | SendFailed error
  | RequestTimeout
  | ManagerError "64 word" string
  | InvalidResponseFormat
  | HandshakeTimeout
  | HandshakeParseFailed json_error
  | ConnectFailed string
  | HandshakeFailed error
  | NotFoundInAnyManager string
  | NoConnectedManagers
  | CreateFailedOnAnyManager
  | ExecuteFailedOnAnyManager

section \<open>Drivers (external collaborators)\<close>

text \<open>
  A driver is code outside these files: the manager only calls its methods. A driver
  object is represented by what its methods return, by whether it implements the
  optional interfaces \<^verbatim>\<open>driver.Getter\<close> and \<^verbatim>\<open>driver.Other\<close>, by the storage it was
  given, and by \<open>invoked\<close>, the list of the methods called on it so far. A value a
  method returns is the tree the encoder makes of it.
\<close>

record Storage =
  Storage_ID :: nat
  MountPath :: string
  Storage_Driver :: string
  Addition :: object
  Status :: string

record Obj =
  Obj_ID :: string
  Obj_Name :: string
  Obj_Path :: string
  IsDir :: bool

record ListArgs =
  Refresh :: bool

record OtherArgs =
  Other_Method :: string
  Other_Data :: object

record Driver =
  storage :: "Storage option"
  invoked :: "string list"
  Init_returns :: "string option"
  Drop_returns :: "string option"
  List_returns :: "Obj \<Rightarrow> ListArgs \<Rightarrow> string + json"
  Link_returns :: "Obj \<Rightarrow> string + json"
  Getter :: "(string \<Rightarrow> string + json option) option"
  Other :: "(OtherArgs \<Rightarrow> string + json option) option"

definition SetStorage :: "Driver \<Rightarrow> Storage \<Rightarrow> Driver" where
  "SetStorage d st = d\<lparr>storage := Some st, invoked := invoked d @ [''SetStorage'']\<rparr>"

definition Init :: "Driver \<Rightarrow> Driver \<times> string option" where
  "Init d = (d\<lparr>invoked := invoked d @ [''Init'']\<rparr>, Init_returns d)"

definition Drop :: "Driver \<Rightarrow> Driver \<times> string option" where
  "Drop d = (d\<lparr>invoked := invoked d @ [''Drop'']\<rparr>, Drop_returns d)"

definition List_call :: "Driver \<Rightarrow> Obj \<Rightarrow> ListArgs \<Rightarrow> Driver \<times> (string + json)" where
  "List_call d dir args = (d\<lparr>invoked := invoked d @ [''List'']\<rparr>, List_returns d dir args)"

definition Link_call :: "Driver \<Rightarrow> Obj \<Rightarrow> Driver \<times> (string + json)" where
  "Link_call d file = (d\<lparr>invoked := invoked d @ [''Link'']\<rparr>, Link_returns d file)"

section \<open>The driver registry (registry.go)\<close>

record DriverInfo =
  Name :: string
  Config :: json
  Items :: json
  I18n :: json
  Constructor :: Driver

text \<open>The registry's map \<^verbatim>\<open>drivers\<close>, as an association list (the first entry of a
  key is the map's entry).\<close>

type_synonym DriverRegistry = "(string \<times> DriverInfo) list"

definition GetDriver :: "DriverRegistry \<Rightarrow> string \<Rightarrow> error + DriverInfo" where
  "GetDriver r name =
     (case map_of r name of None \<Rightarrow> Inl (DriverNotFound name) | Some driver \<Rightarrow> Inr driver)"

definition ListDrivers :: "DriverRegistry \<Rightarrow> (string \<times> DriverInfo) list" where
  "ListDrivers r = AList.clearjunk r"

definition GetDriverCount :: "DriverRegistry \<Rightarrow> 64 word" where
  "GetDriverCount r = of_nat (length (AList.clearjunk r))"

section \<open>The remote-side instance manager (manager.go)\<close>

record DriverInstance =
  inst_ID :: string
  inst_Name :: string
  inst_Driver :: Driver
  inst_Config :: object
  Enabled :: bool

text \<open>The map \<^verbatim>\<open>instances\<close> is an association list with one entry per key, kept so by
  \<open>AList.update\<close> and \<open>AList.delete\<close>.\<close>

record DriverManager =
  registry :: DriverRegistry
  instances :: "(string \<times> DriverInstance) list"

definition NewDriverManager :: "DriverRegistry \<Rightarrow> DriverManager" where
  "NewDriverManager r = \<lparr>registry = r, instances = []\<rparr>"

definition CreateDriverInstance ::
  "DriverManager \<Rightarrow> string \<Rightarrow> string \<Rightarrow> object \<Rightarrow> DriverManager \<times> error option" where
  "CreateDriverInstance dm instanceID driverName config =
     (case map_of (instances dm) instanceID of
        Some _ \<Rightarrow> (dm, Some (InstanceExists instanceID))
      | None \<Rightarrow>
          (case GetDriver (registry dm) driverName of
             Inl err \<Rightarrow> (dm, Some (GetDriverInfoFailed err))
           | Inr driverInfo \<Rightarrow>
               (let driverInstance = Constructor driverInfo;
                    st = \<lparr>Storage_ID = 0, MountPath = ''/driver-'' @ instanceID,
                          Storage_Driver = driverName, Addition = config, Status = ''work''\<rparr>;
                    driverInstance = SetStorage driverInstance st;
                    r = Init driverInstance
                in case snd r of
                     Some err \<Rightarrow> (dm, Some (InitFailed err))
                   | None \<Rightarrow>
                       (dm\<lparr>instances := AList.update instanceID
                              \<lparr>inst_ID = instanceID, inst_Name = driverName,
                               inst_Driver = fst r, inst_Config = config, Enabled = True\<rparr>
                              (instances dm)\<rparr>,
                        None))))"

definition GetDriverInstance :: "DriverManager \<Rightarrow> string \<Rightarrow> error + DriverInstance" where
  "GetDriverInstance dm instanceID =
     (case map_of (instances dm) instanceID of
        None \<Rightarrow> Inl (InstanceNotFound instanceID)
      | Some inst \<Rightarrow> Inr inst)"

definition ListDriverInstances :: "DriverManager \<Rightarrow> (string \<times> DriverInstance) list" where
  "ListDriverInstances dm = AList.clearjunk (instances dm)"

definition RemoveDriverInstance :: "DriverManager \<Rightarrow> string \<Rightarrow> DriverManager \<times> error option" where
  "RemoveDriverInstance dm instanceID =
     (case map_of (instances dm) instanceID of
        None \<Rightarrow> (dm, Some (InstanceNotFound instanceID))
      | Some inst \<Rightarrow>
          (let r = Drop (inst_Driver inst);
               dm1 = dm\<lparr>instances := AList.update instanceID (inst\<lparr>inst_Driver := fst r\<rparr>)
                                        (instances dm)\<rparr>
           in case snd r of
                Some err \<Rightarrow> (dm1, Some (DropFailed err))
              | None \<Rightarrow> (dm1\<lparr>instances := AList.delete instanceID (instances dm1)\<rparr>, None)))"

definition EnableDriverInstance :: "DriverManager \<Rightarrow> string \<Rightarrow> DriverManager \<times> error option" where
  "EnableDriverInstance dm instanceID =
     (case map_of (instances dm) instanceID of
        None \<Rightarrow> (dm, Some (InstanceNotFound instanceID))
      | Some inst \<Rightarrow>
          (dm\<lparr>instances := AList.update instanceID (inst\<lparr>Enabled := True\<rparr>) (instances dm)\<rparr>,
           None))"

definition DisableDriverInstance :: "DriverManager \<Rightarrow> string \<Rightarrow> DriverManager \<times> error option" where
  "DisableDriverInstance dm instanceID =
     (case map_of (instances dm) instanceID of
        None \<Rightarrow> (dm, Some (InstanceNotFound instanceID))
      | Some inst \<Rightarrow>
          (dm\<lparr>instances := AList.update instanceID (inst\<lparr>Enabled := False\<rparr>) (instances dm)\<rparr>,
           None))"

definition IsDriverInstanceEnabled :: "DriverManager \<Rightarrow> string \<Rightarrow> bool" where
  "IsDriverInstanceEnabled dm instanceID =
     (case map_of (instances dm) instanceID of None \<Rightarrow> False | Some inst \<Rightarrow> Enabled inst)"

text \<open>
  The operation translators receive the pointer to the table's entry; a call on the
  entry's driver is seen in the table. \<open>key\<close> is the key that entry is stored under.
\<close>

definition store_driver :: "DriverManager \<Rightarrow> string \<Rightarrow> DriverInstance \<Rightarrow> Driver \<Rightarrow> DriverManager" where
  "store_driver dm key inst d =
     dm\<lparr>instances := AList.update key (inst\<lparr>inst_Driver := d\<rparr>) (instances dm)\<rparr>"

definition driver_result :: "string + 'a \<Rightarrow> error + 'a" where
  "driver_result r = (case r of Inl err \<Rightarrow> Inl (DriverFailure err) | Inr v \<Rightarrow> Inr v)"

definition executeListOperation ::
  "DriverManager \<Rightarrow> string \<Rightarrow> DriverInstance \<Rightarrow> object \<Rightarrow> DriverManager \<times> (error + json option)" where
  "executeListOperation dm key inst params =
     (case as_string (index params ''path'') of
        None \<Rightarrow> (dm, Inl PathRequired)
      | Some path \<Rightarrow>
          (let dir = \<lparr>Obj_ID = path, Obj_Name = path, Obj_Path = path, IsDir = True\<rparr>;
               args = \<lparr>Refresh = (case as_bool (index params ''refresh'') of
                                     Some refresh \<Rightarrow> refresh | None \<Rightarrow> False)\<rparr>;
               r = List_call (inst_Driver inst) dir args
           in (store_driver dm key inst (fst r), map_sum id Some (driver_result (snd r)))))"

definition executeLinkOperation ::
  "DriverManager \<Rightarrow> string \<Rightarrow> DriverInstance \<Rightarrow> object \<Rightarrow> DriverManager \<times> (error + json option)" where
  "executeLinkOperation dm key inst params =
     (case as_string (index params ''path'') of
        None \<Rightarrow> (dm, Inl PathRequired)
      | Some path \<Rightarrow>
          (let file = \<lparr>Obj_ID = path, Obj_Name = path, Obj_Path = path, IsDir = False\<rparr>;
               r = Link_call (inst_Driver inst) file
           in (store_driver dm key inst (fst r), map_sum id Some (driver_result (snd r)))))"

definition executeGetOperation ::
  "DriverManager \<Rightarrow> string \<Rightarrow> DriverInstance \<Rightarrow> object \<Rightarrow> DriverManager \<times> (error + json option)" where
  "executeGetOperation dm key inst params =
     (case Getter (inst_Driver inst) of
        None \<Rightarrow> (dm, Inl NoGetSupport)
      | Some getter \<Rightarrow>
          (case as_string (index params ''path'') of
             None \<Rightarrow> (dm, Inl PathRequired)
           | Some path \<Rightarrow>
               (store_driver dm key inst
                  ((inst_Driver inst)\<lparr>invoked := invoked (inst_Driver inst) @ [''Get'']\<rparr>),
                driver_result (getter path))))"

definition executeOtherOperation ::
  "DriverManager \<Rightarrow> string \<Rightarrow> DriverInstance \<Rightarrow> object \<Rightarrow> DriverManager \<times> (error + json option)" where
  "executeOtherOperation dm key inst params =
     (case Other (inst_Driver inst) of
        None \<Rightarrow> (dm, Inl NoOtherSupport)
      | Some other \<Rightarrow>
          (let args = \<lparr>Other_Method = (case as_string (index params ''method'') of
                                          Some method \<Rightarrow> method | None \<Rightarrow> []),
                       Other_Data = params\<rparr>
           in (store_driver dm key inst
                 ((inst_Driver inst)\<lparr>invoked := invoked (inst_Driver inst) @ [''Other'']\<rparr>),
               driver_result (other args))))"

definition ExecuteDriverOperation ::
  "DriverManager \<Rightarrow> string \<Rightarrow> string \<Rightarrow> object \<Rightarrow> DriverManager \<times> (error + json option)" where
  "ExecuteDriverOperation dm instanceID operation params =
     (case GetDriverInstance dm instanceID of
        Inl err \<Rightarrow> (dm, Inl err)
      | Inr inst \<Rightarrow>
          if \<not> IsDriverInstanceEnabled dm instanceID then (dm, Inl (InstanceDisabled instanceID))
          else if operation = ''list'' then executeListOperation dm instanceID inst params
          else if operation = ''link'' then executeLinkOperation dm instanceID inst params
          else if operation = ''get'' then executeGetOperation dm instanceID inst params
          else if operation = ''other'' then executeOtherOperation dm instanceID inst params
          else (dm, Inl (UnsupportedOperation operation)))"

text \<open>\<^verbatim>\<open>err.Error()\<close>, as the format strings of the sources build it.\<close>

fun error_text :: "error \<Rightarrow> string" where
  "error_text (InstanceExists i) = ''driver instance '' @ i @ '' already exists''"
| "error_text (DriverNotFound n) = ''driver '' @ n @ '' not found''"
| "error_text (GetDriverInfoFailed e) = ''failed to get driver info: '' @ error_text e"
| "error_text (InitFailed e) = ''failed to initialize driver: '' @ e"
| "error_text (InstanceNotFound i) = ''driver instance '' @ i @ '' not found''"
| "error_text (DropFailed e) = ''failed to drop driver: '' @ e"
| "error_text (InstanceDisabled i) = ''driver instance '' @ i @ '' is disabled''"
| "error_text (UnsupportedOperation operation) = ''unsupported operation: '' @ operation"
| "error_text PathRequired = ''path parameter is required''"
| "error_text NoGetSupport = ''driver does not support get operation''"
| "error_text NoOtherSupport = ''driver does not support other operation''"
| "error_text (DriverFailure e) = e"
| "error_text (WriteFailed e) = e"
| "error_text (ProcessFailed e) = ''failed to process message: '' @ error_text e"
| "error_text ContextCanceled = ''context canceled''"
| "error_text (ScannerError e) = ''scanner error: '' @ e"
| "error_text NotConnected = ''not connected to driver manager''"
| "error_text (SendFailed e) = ''failed to send request: '' @ error_text e"
| "error_text RequestTimeout = ''request timeout''"
| "error_text (ManagerError c m) = ''driver manager error '' @ show_int (sint c) @ '': '' @ m"
| "error_text InvalidResponseFormat = ''invalid response format''"
| "error_text HandshakeTimeout = ''handshake timeout''"
| "error_text (HandshakeParseFailed e) = ''failed to parse handshake: '' @ json_error_text e"
| "error_text (ConnectFailed e) = ''failed to connect to driver manager: '' @ e"
| "error_text (HandshakeFailed e) = ''handshake failed: '' @ error_text e"
| "error_text (NotFoundInAnyManager n) = ''driver '' @ n @ '' not found in any connected manager''"
| "error_text NoConnectedManagers = ''no connected driver managers''"
| "error_text CreateFailedOnAnyManager = ''failed to create driver instance on any manager''"
| "error_text ExecuteFailedOnAnyManager = ''failed to execute operation on any manager''"

section \<open>The socket\<close>

text \<open>
  A connection keeps the documents written to it, one per line. Whether a write fails
  is the network's choice: \<open>write_error\<close> is the error the next write returns, if any.
\<close>

record Conn =
  written :: "json list"
  write_error :: "string option"

definition Write :: "Conn \<Rightarrow> json \<Rightarrow> Conn \<times> error option" where
  "Write c doc =
     (case write_error c of
        Some why \<Rightarrow> (c, Some (WriteFailed why))
      | None \<Rightarrow> (c\<lparr>written := written c @ [doc]\<rparr>, None))"

section \<open>The remote-side protocol handler (protocol.go)\<close>

record ProtocolHandler =
  ph_conn :: Conn
  driverManager :: DriverManager

definition sendMessage :: "ProtocolHandler \<Rightarrow> Message \<Rightarrow> ProtocolHandler \<times> error option" where
  "sendMessage ph msg =
     (let r = Write (ph_conn ph) (marshal_Message msg) in (ph\<lparr>ph_conn := fst r\<rparr>, snd r))"

definition sendError ::
  "ProtocolHandler \<Rightarrow> string \<Rightarrow> 64 word \<Rightarrow> string \<Rightarrow> ProtocolHandler \<times> error option" where
  "sendError ph i code message =
     sendMessage ph \<lparr>ID = i, Type = ''response'', Method = [], Params = None, Result = None,
                     Error = Some \<lparr>Code = code, Message = message\<rparr>\<rparr>"

definition respond :: "ProtocolHandler \<Rightarrow> string \<Rightarrow> json option \<Rightarrow> ProtocolHandler \<times> error option" where
  "respond ph i res =
     sendMessage ph \<lparr>ID = i, Type = ''response'', Method = [], Params = None, Result = res,
                     Error = None\<rparr>"

definition driver_entry :: "bool \<Rightarrow> DriverInfo \<Rightarrow> json" where
  "driver_entry with_items driver = JObj
     ([(''name'', JStr (Name driver)), (''config'', Config driver)]
      @ (if with_items then [(''items'', Items driver)] else [])
      @ [(''i18n'', I18n driver)])"

text \<open>The message \<^verbatim>\<open>SendHandshake\<close> builds: the catalogue of the registry under the
  fixed ID \<^verbatim>\<open>"handshake"\<close>.\<close>

definition handshake_message :: "DriverRegistry \<Rightarrow> string \<Rightarrow> Message" where
  "handshake_message reg managerID =
     \<lparr>ID = ''handshake'', Type = ''handshake'', Method = [], Params = None,
      Result = Some (JObj [(''manager_id'', JStr managerID),
                           (''driver_count'', JInt (sint (GetDriverCount reg))),
                           (''drivers'', JObj (map (\<lambda>(name, driver). (name, driver_entry True driver))
                                                (ListDrivers reg)))]),
      Error = None\<rparr>"

definition SendHandshake :: "ProtocolHandler \<Rightarrow> string \<Rightarrow> ProtocolHandler \<times> error option" where
  "SendHandshake ph managerID =
     sendMessage ph (handshake_message (registry (driverManager ph)) managerID)"

definition handlePing :: "ProtocolHandler \<Rightarrow> Message \<Rightarrow> ProtocolHandler \<times> error option" where
  "handlePing ph msg = respond ph (ID msg) (Some (JStr ''pong''))"

definition handleListDrivers :: "ProtocolHandler \<Rightarrow> Message \<Rightarrow> ProtocolHandler \<times> error option" where
  "handleListDrivers ph msg =
     (let drivers = ListDrivers (registry (driverManager ph));
          res = map (\<lambda>(name, driver). (name, driver_entry False driver)) drivers
      in respond ph (ID msg) (Some (JObj res)))"

definition handleGetDriverInfo :: "ProtocolHandler \<Rightarrow> Message \<Rightarrow> ProtocolHandler \<times> error option" where
  "handleGetDriverInfo ph msg =
     (case as_string (index_nilable (Params msg) ''driver'') of
        None \<Rightarrow> sendError ph (ID msg) 400 ''driver parameter is required''
      | Some driverName \<Rightarrow>
          (case GetDriver (registry (driverManager ph)) driverName of
             Inl err \<Rightarrow> sendError ph (ID msg) 404 (error_text err)
           | Inr driver \<Rightarrow> respond ph (ID msg) (Some (driver_entry True driver))))"

definition handleCreateInstance :: "ProtocolHandler \<Rightarrow> Message \<Rightarrow> ProtocolHandler \<times> error option" where
  "handleCreateInstance ph msg =
     (case as_string (index_nilable (Params msg) ''instance_id'') of
        None \<Rightarrow> sendError ph (ID msg) 400 ''instance_id parameter is required''
      | Some instanceID \<Rightarrow>
          (case as_string (index_nilable (Params msg) ''driver'') of
             None \<Rightarrow> sendError ph (ID msg) 400 ''driver parameter is required''
           | Some driverName \<Rightarrow>
               (let config = (case as_map (index_nilable (Params msg) ''config'') of
                                Some c \<Rightarrow> c | None \<Rightarrow> []);
                    r = CreateDriverInstance (driverManager ph) instanceID driverName config;
                    ph1 = ph\<lparr>driverManager := fst r\<rparr>
                in case snd r of
                     Some err \<Rightarrow> sendError ph1 (ID msg) 500 (error_text err)
                   | None \<Rightarrow> respond ph1 (ID msg) (Some (JStr ''success'')))))"

definition handleRemoveInstance :: "ProtocolHandler \<Rightarrow> Message \<Rightarrow> ProtocolHandler \<times> error option" where
  "handleRemoveInstance ph msg =
     (case as_string (index_nilable (Params msg) ''instance_id'') of
        None \<Rightarrow> sendError ph (ID msg) 400 ''instance_id parameter is required''
      | Some instanceID \<Rightarrow>
          (let r = RemoveDriverInstance (driverManager ph) instanceID;
               ph1 = ph\<lparr>driverManager := fst r\<rparr>
           in case snd r of
                Some err \<Rightarrow> sendError ph1 (ID msg) 500 (error_text err)
              | None \<Rightarrow> respond ph1 (ID msg) (Some (JStr ''success''))))"

definition instance_entry :: "DriverInstance \<Rightarrow> json" where
  "instance_entry inst = JObj
     [(''id'', JStr (inst_ID inst)), (''name'', JStr (inst_Name inst)),
      (''enabled'', JBool (Enabled inst)), (''config'', JObj (inst_Config inst))]"

definition handleListInstances :: "ProtocolHandler \<Rightarrow> Message \<Rightarrow> ProtocolHandler \<times> error option" where
  "handleListInstances ph msg =
     (let insts = ListDriverInstances (driverManager ph);
          res = map (\<lambda>(i, inst). (i, instance_entry inst)) insts
      in respond ph (ID msg) (Some (JObj res)))"

definition handleEnableInstance :: "ProtocolHandler \<Rightarrow> Message \<Rightarrow> ProtocolHandler \<times> error option" where
  "handleEnableInstance ph msg =
     (case as_string (index_nilable (Params msg) ''instance_id'') of
        None \<Rightarrow> sendError ph (ID msg) 400 ''instance_id parameter is required''
      | Some instanceID \<Rightarrow>
          (let r = EnableDriverInstance (driverManager ph) instanceID;
               ph1 = ph\<lparr>driverManager := fst r\<rparr>
           in case snd r of
                Some err \<Rightarrow> sendError ph1 (ID msg) 500 (error_text err)
              | None \<Rightarrow> respond ph1 (ID msg) (Some (JStr ''success''))))"

definition handleDisableInstance :: "ProtocolHandler \<Rightarrow> Message \<Rightarrow> ProtocolHandler \<times> error option" where
  "handleDisableInstance ph msg =
     (case as_string (index_nilable (Params msg) ''instance_id'') of
        None \<Rightarrow> sendError ph (ID msg) 400 ''instance_id parameter is required''
      | Some instanceID \<Rightarrow>
          (let r = DisableDriverInstance (driverManager ph) instanceID;
               ph1 = ph\<lparr>driverManager := fst r\<rparr>
           in case snd r of
                Some err \<Rightarrow> sendError ph1 (ID msg) 500 (error_text err)
              | None \<Rightarrow> respond ph1 (ID msg) (Some (JStr ''success''))))"

definition handleExecuteOperation :: "ProtocolHandler \<Rightarrow> Message \<Rightarrow> ProtocolHandler \<times> error option" where
  "handleExecuteOperation ph msg =
     (case as_string (index_nilable (Params msg) ''instance_id'') of
        None \<Rightarrow> sendError ph (ID msg) 400 ''instance_id parameter is required''
      | Some instanceID \<Rightarrow>
          (case as_string (index_nilable (Params msg) ''operation'') of
             None \<Rightarrow> sendError ph (ID msg) 400 ''operation parameter is required''
           | Some operation \<Rightarrow>
               (let operationParams = (case as_map (index_nilable (Params msg) ''params'') of
                                         Some ps \<Rightarrow> ps | None \<Rightarrow> []);
                    r = ExecuteDriverOperation (driverManager ph) instanceID operation
                          operationParams;
                    ph1 = ph\<lparr>driverManager := fst r\<rparr>
                in case snd r of
                     Inl err \<Rightarrow> sendError ph1 (ID msg) 500 (error_text err)
                   | Inr res \<Rightarrow> respond ph1 (ID msg) res)))"

definition handleRequest :: "ProtocolHandler \<Rightarrow> Message \<Rightarrow> ProtocolHandler \<times> error option" where
  "handleRequest ph msg =
     (if Method msg = ''list_drivers'' then handleListDrivers ph msg
      else if Method msg = ''get_driver_info'' then handleGetDriverInfo ph msg
      else if Method msg = ''create_instance'' then handleCreateInstance ph msg
      else if Method msg = ''remove_instance'' then handleRemoveInstance ph msg
      else if Method msg = ''list_instances'' then handleListInstances ph msg
      else if Method msg = ''enable_instance'' then handleEnableInstance ph msg
      else if Method msg = ''disable_instance'' then handleDisableInstance ph msg
      else if Method msg = ''execute_operation'' then handleExecuteOperation ph msg
      else sendError ph (ID msg) 400 (''Unknown method: '' @ Method msg))"

definition processMessage :: "ProtocolHandler \<Rightarrow> line \<Rightarrow> ProtocolHandler \<times> error option" where
  "processMessage ph l =
     (let r = Unmarshal l; msg = fst r in
      case snd r of
        Some err \<Rightarrow> sendError ph (ID msg) 400 (''Invalid JSON: '' @ json_error_text err)
      | None \<Rightarrow>
          if Type msg = ''request'' then handleRequest ph msg
          else if Type msg = ''ping'' then handlePing ph msg
          else sendError ph (ID msg) 400 (''Unknown message type: '' @ Type msg))"

text \<open>
  \<^verbatim>\<open>Handle\<close> reads lines until the scanner stops. Each scanned line comes with whether
  the context was already cancelled when the loop looked; \<open>scan_err\<close> is what
  \<^verbatim>\<open>scanner.Err()\<close> gives once \<^verbatim>\<open>Scan\<close> has returned false.
\<close>

fun Handle ::
  "ProtocolHandler \<Rightarrow> (bool \<times> line) list \<Rightarrow> error option \<Rightarrow> ProtocolHandler \<times> error option" where
  "Handle ph [] scan_err = (ph, scan_err)"
| "Handle ph ((cancelled, l) # rest) scan_err =
     (if cancelled then (ph, Some ContextCanceled)
      else if l = Blank then Handle ph rest scan_err
      else (case processMessage ph l of
              (ph1, Some err) \<Rightarrow> (ph1, Some (ProcessFailed err))
            | (ph1, None) \<Rightarrow> Handle ph1 rest scan_err))"

section \<open>Host-side sessions (client.go, server.go)\<close>

text \<open>
  \<^verbatim>\<open>DriverManagerClient\<close> (the host dialled out) and \<^verbatim>\<open>DriverManagerConnection\<close>
  (a driver manager dialled in) hold the same session state and carry the same
  \<^verbatim>\<open>processMessages\<close> and \<^verbatim>\<open>sendRequest\<close>, word for word but for the names of
  their locks; the functions below are defined once, on the common part.
  \<open>responses\<close> maps a correlation ID to the buffer of its channel
  (\<^verbatim>\<open>make(chan Message, 1)\<close>: at most one message).
\<close>

record HandshakeInfo =
  DriverCount :: "64 word"
  Drivers :: "object option"

record Session =
  conn :: Conn
  responses :: "string \<rightharpoonup> Message list"
  connected :: bool
  handshake :: "HandshakeInfo option"

record DriverManagerClient = Session +
  address :: string

record DriverManagerConnection = Session +
  conn_ID :: string

definition NewDriverManagerClient :: "string \<Rightarrow> DriverManagerClient" where
  "NewDriverManagerClient addr =
     \<lparr>conn = \<lparr>written = [], write_error = None\<rparr>, responses = Map.empty, connected = False,
      handshake = None, address = addr\<rparr>"

definition IsConnected :: "'a Session_scheme \<Rightarrow> bool" where
  "IsConnected dmc = connected dmc"

definition Close :: "'a Session_scheme \<Rightarrow> 'a Session_scheme" where
  "Close dmc = dmc\<lparr>connected := False\<rparr>"

subsection \<open>Decoding the handshake payload\<close>

definition zero_HandshakeInfo :: HandshakeInfo where
  "zero_HandshakeInfo = \<lparr>DriverCount = 0, Drivers = None\<rparr>"

definition HandshakeInfo_member ::
  "HandshakeInfo \<times> json_error option \<Rightarrow> string \<times> json \<Rightarrow> HandshakeInfo \<times> json_error option" where
  "HandshakeInfo_member st kv =
     (let h = fst st; saved = snd st; f = fold_key (fst kv); v = snd kv in
      if f = ''driver_count'' then
        (case decode_int v of
           Inl None \<Rightarrow> (h, saved)
         | Inl (Some c) \<Rightarrow> (h\<lparr>DriverCount := c\<rparr>, saved)
         | Inr err \<Rightarrow> (h, saveError saved err))
      else if f = ''drivers'' then
        (case v of
           JNull \<Rightarrow> (h\<lparr>Drivers := None\<rparr>, saved)
         | JObj kvs \<Rightarrow>
             (h\<lparr>Drivers := Some ((case Drivers h of None \<Rightarrow> [] | Some old \<Rightarrow> old) @ kvs)\<rparr>, saved)
         | _ \<Rightarrow> (h, saveError saved (UnmarshalTypeError (json_kind v) ''map[string]interface {}'')))
      else (h, saved))"

definition unmarshal_HandshakeInfo :: "json \<Rightarrow> HandshakeInfo \<times> json_error option" where
  "unmarshal_HandshakeInfo doc =
     (case doc of
        JObj kvs \<Rightarrow> foldl HandshakeInfo_member (zero_HandshakeInfo, None) kvs
      | JNull \<Rightarrow> (zero_HandshakeInfo, None)
      | _ \<Rightarrow> (zero_HandshakeInfo, Some (UnmarshalTypeError (json_kind doc) ''HandshakeInfo'')))"

text \<open>\<^verbatim>\<open>json.Marshal(msg.Result)\<close> followed by \<^verbatim>\<open>json.Unmarshal(resultData, &handshake)\<close>:
  a nil result is encoded as \<^verbatim>\<open>null\<close>. Encoding a decoded value cannot fail.\<close>

definition parse_handshake :: "Message \<Rightarrow> error + HandshakeInfo" where
  "parse_handshake msg =
     (let r = unmarshal_HandshakeInfo (case Result msg of None \<Rightarrow> JNull | Some v \<Rightarrow> v) in
      case snd r of Some err \<Rightarrow> Inl (HandshakeParseFailed err) | None \<Rightarrow> Inr (fst r))"

subsection \<open>Waiting for the handshake\<close>

text \<open>
  Each turn of the loop is one event: the context was cancelled, the 30 s timer had
  fired, \<^verbatim>\<open>Scan\<close> returned a line, or \<^verbatim>\<open>Scan\<close> returned false with the error
  \<^verbatim>\<open>scanner.Err()\<close> then gives. When the events run out the function is still blocked
  in \<^verbatim>\<open>Scan\<close>: it has not returned (\<open>None\<close>).
\<close>

datatype hs_event = CtxDone | TimerFired | Scanned line | ScanStopped "string option"

fun client_waitForHandshake ::
  "DriverManagerClient \<Rightarrow> hs_event list \<Rightarrow> (DriverManagerClient \<times> error option) option" where
  "client_waitForHandshake dmc [] = None"
| "client_waitForHandshake dmc (CtxDone # evs) = Some (dmc, Some ContextCanceled)"
| "client_waitForHandshake dmc (TimerFired # evs) = Some (dmc, Some HandshakeTimeout)"
| "client_waitForHandshake dmc (Scanned l # evs) =
     (if l = Blank then client_waitForHandshake dmc evs
      else (let r = Unmarshal l; msg = fst r in
            if snd r \<noteq> None then client_waitForHandshake dmc evs
            else if Type msg = ''handshake'' \<and> ID msg = ''handshake'' then
              (case parse_handshake msg of
                 Inl err \<Rightarrow> Some (dmc, Some err)
               | Inr h \<Rightarrow> Some (dmc\<lparr>handshake := Some h\<rparr>, None))
            else client_waitForHandshake dmc evs))"
| "client_waitForHandshake dmc (ScanStopped None # evs) = client_waitForHandshake dmc evs"
| "client_waitForHandshake dmc (ScanStopped (Some why) # evs) = Some (dmc, Some (ScannerError why))"

text \<open>The server's wait has no context in its \<^verbatim>\<open>select\<close>: a cancellation is not looked at.\<close>

fun server_waitForHandshake ::
  "DriverManagerConnection \<Rightarrow> hs_event list \<Rightarrow> (DriverManagerConnection \<times> error option) option" where
  "server_waitForHandshake client [] = None"
| "server_waitForHandshake client (CtxDone # evs) = server_waitForHandshake client evs"
| "server_waitForHandshake client (TimerFired # evs) = Some (client, Some HandshakeTimeout)"
| "server_waitForHandshake client (Scanned l # evs) =
     (if l = Blank then server_waitForHandshake client evs
      else (let r = Unmarshal l; msg = fst r in
            if snd r \<noteq> None then server_waitForHandshake client evs
            else if Type msg = ''handshake'' then
              (case parse_handshake msg of
                 Inl err \<Rightarrow> Some (client, Some err)
               | Inr h \<Rightarrow> Some (client\<lparr>handshake := Some h\<rparr>, None))
            else server_waitForHandshake client evs))"
| "server_waitForHandshake client (ScanStopped None # evs) = server_waitForHandshake client evs"
| "server_waitForHandshake client (ScanStopped (Some why) # evs) =
     Some (client, Some (ScannerError why))"

text \<open>
  The server's wait against the clock. The timer is made when the wait begins and fires
  30 s later. The loop looks at it only in the \<^verbatim>\<open>select\<close> at the top of a turn;
  with the timer not yet fired the turn takes the \<^verbatim>\<open>default\<close> branch and blocks in
  \<^verbatim>\<open>Scan\<close> until the next line has arrived, however late: the socket has no read
  deadline. \<open>turns_by_clock t arrivals\<close> are the turns the loop goes through as long as
  none makes it return, for a peer that keeps its connection open: \<open>t\<close> is the time at
  the top of the turn and \<open>arrivals\<close> are the peer's lines, each with the time at which
  it arrives, in milliseconds since the wait began.
\<close>

definition handshake_timeout :: nat where
  "handshake_timeout = 30000"

fun turns_by_clock :: "nat \<Rightarrow> (nat \<times> line) list \<Rightarrow> hs_event list" where
  "turns_by_clock t [] = (if handshake_timeout \<le> t then [TimerFired] else [])"
| "turns_by_clock t ((arrival, l) # later) =
     (if handshake_timeout \<le> t then [TimerFired]
      else Scanned l # turns_by_clock (max t arrival) later)"

subsection \<open>The read loop\<close>

text \<open>
  A response is put into the channel registered under its ID. A full channel makes the
  loop wait 5 s and give the message up; no channel under that ID drops it at once.
\<close>

definition deliver :: "'a Session_scheme \<Rightarrow> Message \<Rightarrow> 'a Session_scheme" where
  "deliver dmc msg =
     (case responses dmc (ID msg) of
        None \<Rightarrow> dmc
      | Some ch \<Rightarrow> if ch = [] then dmc\<lparr>responses := (responses dmc)(ID msg \<mapsto> [msg])\<rparr> else dmc)"

text \<open>The body of the loop for one non-empty line.\<close>

definition process_line :: "'a Session_scheme \<Rightarrow> line \<Rightarrow> 'a Session_scheme" where
  "process_line dmc l =
     (let r = Unmarshal l; msg = fst r in
      if snd r \<noteq> None then dmc
      else if Type msg = ''handshake'' then dmc
      else if Type msg = ''response'' \<and> ID msg \<noteq> [] then deliver dmc msg
      else dmc)"

fun processMessages :: "'a Session_scheme \<Rightarrow> (bool \<times> line) list \<Rightarrow> 'a Session_scheme" where
  "processMessages dmc [] = dmc\<lparr>connected := False\<rparr>"
| "processMessages dmc ((cancelled, l) # rest) =
     (if cancelled then dmc\<lparr>connected := False\<rparr>
      else if l = Blank then processMessages dmc rest
      else processMessages (process_line dmc l) rest)"

subsection \<open>Requests\<close>

text \<open>
  \<^verbatim>\<open>sendRequest\<close> in two halves, so that other callers and the read loop can run
  between them: \<open>sendRequest_issue\<close> is the function up to the write (\<open>now\<close> is what
  \<^verbatim>\<open>time.Now().UnixNano()\<close> returned), \<open>sendRequest_await\<close> is the \<^verbatim>\<open>select\<close> and
  the deferred removal of the channel. What the \<^verbatim>\<open>select\<close> found ready is the
  environment's choice. Encoding the request cannot fail for parameters that are trees.
\<close>

datatype wait = Cancelled | TimedOut | Response Message

definition request_id :: "string \<Rightarrow> int \<Rightarrow> string" where
  "request_id method now = method @ ''-'' @ show_int now"

definition unregister :: "'a Session_scheme \<Rightarrow> string \<Rightarrow> 'a Session_scheme" where
  "unregister dmc i = dmc\<lparr>responses := (responses dmc)(i := None)\<rparr>"

definition sendRequest_issue ::
  "'a Session_scheme \<Rightarrow> int \<Rightarrow> string \<Rightarrow> object option \<Rightarrow> 'a Session_scheme \<times> (error + string)" where
  "sendRequest_issue dmc now method params =
     (if \<not> IsConnected dmc then (dmc, Inl NotConnected)
      else
        (let i = request_id method now;
             dmc1 = dmc\<lparr>responses := (responses dmc)(i \<mapsto> [])\<rparr>;
             request = \<lparr>ID = i, Type = ''request'', Method = method, Params = params,
                        Result = None, Error = None\<rparr>;
             w = Write (conn dmc1) (marshal_Message request);
             dmc2 = dmc1\<lparr>conn := fst w\<rparr>
         in case snd w of
              Some err \<Rightarrow> (unregister dmc2 i, Inl (SendFailed err))
            | None \<Rightarrow> (dmc2, Inr i)))"

definition sendRequest_await ::
  "'a Session_scheme \<Rightarrow> string \<Rightarrow> wait \<Rightarrow> 'a Session_scheme \<times> (error + json option)" where
  "sendRequest_await dmc i w =
     (unregister dmc i,
      case w of
        Cancelled \<Rightarrow> Inl ContextCanceled
      | TimedOut \<Rightarrow> Inl RequestTimeout
      | Response response \<Rightarrow>
          (case Error response of
             Some e \<Rightarrow> Inl (ManagerError (Code e) (Message e))
           | None \<Rightarrow> Inr (Result response)))"

definition sendRequest ::
  "'a Session_scheme \<Rightarrow> int \<Rightarrow> string \<Rightarrow> object option \<Rightarrow> wait \<Rightarrow>
   'a Session_scheme \<times> (error + json option)" where
  "sendRequest dmc now method params w =
     (case sendRequest_issue dmc now method params of
        (dmc1, Inl err) \<Rightarrow> (dmc1, Inl err)
      | (dmc1, Inr i) \<Rightarrow> sendRequest_await dmc1 i w)"

subsection \<open>The client's helper calls\<close>

definition Client_GetDriverInfo ::
  "DriverManagerClient \<Rightarrow> int \<Rightarrow> string \<Rightarrow> wait \<Rightarrow> DriverManagerClient \<times> (error + object)" where
  "Client_GetDriverInfo dmc now driverName w =
     (let r = sendRequest dmc now ''get_driver_info'' (Some [(''driver'', JStr driverName)]) w in
      (fst r,
       case snd r of
         Inl err \<Rightarrow> Inl err
       | Inr res \<Rightarrow> (case as_map res of None \<Rightarrow> Inl InvalidResponseFormat | Some info \<Rightarrow> Inr info)))"

section \<open>The inbound listener (server.go)\<close>

text \<open>The registry \<^verbatim>\<open>clients\<close> is a Go map from connection ID to connection.\<close>

record DriverManagerServer =
  clients :: "string \<rightharpoonup> DriverManagerConnection"

definition NewDriverManagerServer :: DriverManagerServer where
  "NewDriverManagerServer = \<lparr>clients = Map.empty\<rparr>"

text \<open>
  The connection object \<^verbatim>\<open>handleConnection\<close> builds first: its ID is made of the clock
  reading \<open>now\<close>, taken when the connection has been accepted; \<open>c\<close> is the socket.
\<close>

definition new_connection :: "int \<Rightarrow> Conn \<Rightarrow> DriverManagerConnection" where
  "new_connection now c =
     \<lparr>conn = c, responses = Map.empty, connected = True, handshake = None,
      conn_ID = ''dm-'' @ show_int now\<rparr>"

text \<open>
  \<^verbatim>\<open>handleConnection\<close> up to the point where it parks on the context: \<open>evs\<close> is what
  the handshake wait meets. A wait that has not returned leaves the server as it is.
\<close>

definition handleConnection ::
  "DriverManagerServer \<Rightarrow> int \<Rightarrow> Conn \<Rightarrow> hs_event list \<Rightarrow> DriverManagerServer" where
  "handleConnection dms now c evs =
     (let client = new_connection now c
      in case server_waitForHandshake client evs of
           None \<Rightarrow> dms
         | Some (client1, Some err) \<Rightarrow> dms
         | Some (client1, None) \<Rightarrow> dms\<lparr>clients := (clients dms)(conn_ID client1 \<mapsto> client1)\<rparr>)"

text \<open>\<^verbatim>\<open>Stop\<close> closes every registered connection.\<close>

definition Stop :: "DriverManagerServer \<Rightarrow> DriverManagerServer" where
  "Stop dms = dms\<lparr>clients := (\<lambda>k. map_option Close (clients dms k))\<rparr>"

text \<open>
  The states the listener can be in: it starts empty; a connection is handled; the read
  loop of a registered connection runs over some lines; a request is sent on a registered
  connection; the listener is stopped.
\<close>

inductive reachable :: "DriverManagerServer \<Rightarrow> bool" where
  start: "reachable NewDriverManagerServer"
| accept: "reachable dms \<Longrightarrow> reachable (handleConnection dms now c evs)"
| read: "reachable dms \<Longrightarrow> clients dms k = Some client \<Longrightarrow>
         reachable (dms\<lparr>clients := (clients dms)(k \<mapsto> processMessages client ls)\<rparr>)"
| request: "reachable dms \<Longrightarrow> clients dms k = Some client \<Longrightarrow>
            reachable (dms\<lparr>clients := (clients dms)(k \<mapsto> fst (sendRequest client now method params w))\<rparr>)"
| stop: "reachable dms \<Longrightarrow> reachable (Stop dms)"

text \<open>
  \<^verbatim>\<open>GetConnectedManagers\<close> ranges over the map. Go leaves the order of that range
  unspecified: \<open>order\<close> is the order the runtime yields the keys in, each key once.
  A manager is a pointer to the registered connection, here the key with the connection.
\<close>

definition is_range_of :: "string list \<Rightarrow> DriverManagerServer \<Rightarrow> bool" where
  "is_range_of order dms = (distinct order \<and> set order = dom (clients dms))"

definition GetConnectedManagers ::
  "DriverManagerServer \<Rightarrow> string list \<Rightarrow> (string \<times> DriverManagerConnection) list" where
  "GetConnectedManagers dms order =
     concat (map (\<lambda>k. case clients dms k of
                         None \<Rightarrow> []
                       | Some client \<Rightarrow> if IsConnected client then [(k, client)] else []) order)"

text \<open>
  What the network does to the request sent on the connection registered under a key:
  the clock reading when it is sent and what its \<^verbatim>\<open>select\<close> finds.
\<close>

type_synonym env = "string \<Rightarrow> int \<times> wait"

definition put_client ::
  "DriverManagerServer \<Rightarrow> string \<Rightarrow> DriverManagerConnection \<Rightarrow> DriverManagerServer" where
  "put_client dms k client = dms\<lparr>clients := (clients dms)(k \<mapsto> client)\<rparr>"

fun Server_GetDriverInfo_loop ::
  "env \<Rightarrow> string \<Rightarrow> DriverManagerServer \<Rightarrow> (string \<times> DriverManagerConnection) list \<Rightarrow>
   DriverManagerServer \<times> (error + object)" where
  "Server_GetDriverInfo_loop env driverName dms [] = (dms, Inl (NotFoundInAnyManager driverName))"
| "Server_GetDriverInfo_loop env driverName dms ((k, manager) # managers) =
     (let r = sendRequest manager (fst (env k)) ''get_driver_info''
                (Some [(''driver'', JStr driverName)]) (snd (env k));
          dms1 = put_client dms k (fst r)
      in case snd r of
           Inl err \<Rightarrow> Server_GetDriverInfo_loop env driverName dms1 managers
         | Inr info \<Rightarrow>
             (case as_map info of
                Some infoMap \<Rightarrow> (dms1, Inr infoMap)
              | None \<Rightarrow> Server_GetDriverInfo_loop env driverName dms1 managers))"

definition Server_GetDriverInfo ::
  "DriverManagerServer \<Rightarrow> string list \<Rightarrow> env \<Rightarrow> string \<Rightarrow> DriverManagerServer \<times> (error + object)" where
  "Server_GetDriverInfo dms order env driverName =
     Server_GetDriverInfo_loop env driverName dms (GetConnectedManagers dms order)"

definition create_params :: "string \<Rightarrow> string \<Rightarrow> object option \<Rightarrow> object option" where
  "create_params instanceID driverName config =
     Some [(''instance_id'', JStr instanceID), (''driver'', JStr driverName),
           (''config'', (case config of None \<Rightarrow> JNull | Some c \<Rightarrow> JObj c))]"

fun Server_CreateDriverInstance_loop ::
  "env \<Rightarrow> string \<Rightarrow> string \<Rightarrow> object option \<Rightarrow> DriverManagerServer \<Rightarrow>
   (string \<times> DriverManagerConnection) list \<Rightarrow> DriverManagerServer \<times> error option" where
  "Server_CreateDriverInstance_loop env instanceID driverName config dms [] =
     (dms, Some CreateFailedOnAnyManager)"
| "Server_CreateDriverInstance_loop env instanceID driverName config dms ((k, manager) # managers) =
     (let r = sendRequest manager (fst (env k)) ''create_instance''
                (create_params instanceID driverName config) (snd (env k));
          dms1 = put_client dms k (fst r)
      in case snd r of
           Inr res \<Rightarrow> (dms1, None)
         | Inl err \<Rightarrow> Server_CreateDriverInstance_loop env instanceID driverName config dms1 managers)"

definition Server_CreateDriverInstance ::
  "DriverManagerServer \<Rightarrow> string list \<Rightarrow> env \<Rightarrow> string \<Rightarrow> string \<Rightarrow> object option \<Rightarrow>
   DriverManagerServer \<times> error option" where
  "Server_CreateDriverInstance dms order env instanceID driverName config =
     (let managers = GetConnectedManagers dms order in
      if length managers = 0 then (dms, Some NoConnectedManagers)
      else Server_CreateDriverInstance_loop env instanceID driverName config dms managers)"

definition execute_params :: "string \<Rightarrow> string \<Rightarrow> object option \<Rightarrow> object option" where
  "execute_params instanceID operation operationParams =
     Some [(''instance_id'', JStr instanceID), (''operation'', JStr operation),
           (''params'', (case operationParams of None \<Rightarrow> JNull | Some ps \<Rightarrow> JObj ps))]"

fun Server_ExecuteDriverOperation_loop ::
  "env \<Rightarrow> string \<Rightarrow> string \<Rightarrow> object option \<Rightarrow> DriverManagerServer \<Rightarrow>
   (string \<times> DriverManagerConnection) list \<Rightarrow> DriverManagerServer \<times> (error + json option)" where
  "Server_ExecuteDriverOperation_loop env instanceID operation operationParams dms [] =
     (dms, Inl ExecuteFailedOnAnyManager)"
| "Server_ExecuteDriverOperation_loop env instanceID operation operationParams dms
     ((k, manager) # managers) =
     (let r = sendRequest manager (fst (env k)) ''execute_operation''
                (execute_params instanceID operation operationParams) (snd (env k));
          dms1 = put_client dms k (fst r)
      in case snd r of
           Inr res \<Rightarrow> (dms1, Inr res)
         | Inl err \<Rightarrow>
             Server_ExecuteDriverOperation_loop env instanceID operation operationParams dms1 managers)"

definition Server_ExecuteDriverOperation ::
  "DriverManagerServer \<Rightarrow> string list \<Rightarrow> env \<Rightarrow> string \<Rightarrow> string \<Rightarrow> object option \<Rightarrow>
   DriverManagerServer \<times> (error + json option)" where
  "Server_ExecuteDriverOperation dms order env instanceID operation operationParams =
     Server_ExecuteDriverOperation_loop env instanceID operation operationParams dms
       (GetConnectedManagers dms order)"

section \<open>The pool of outbound clients (client.go)\<close>

text \<open>
  \<^verbatim>\<open>Connect\<close>: \<open>dialled\<close> is what \<^verbatim>\<open>net.DialTimeout\<close> returned, \<open>evs\<close> what the
  handshake wait meets. The result is \<open>None\<close> while that wait has not returned. The
  read loop that \<^verbatim>\<open>Connect\<close> starts before the wait reads from the same scanner; \<open>evs\<close>
  are the lines that reach the wait.
\<close>

definition Connect ::
  "DriverManagerClient \<Rightarrow> string + Conn \<Rightarrow> hs_event list \<Rightarrow>
   (DriverManagerClient \<times> error option) option" where
  "Connect dmc dialled evs =
     (case dialled of
        Inl why \<Rightarrow> Some (dmc, Some (ConnectFailed why))
      | Inr c \<Rightarrow>
          (case client_waitForHandshake (dmc\<lparr>conn := c, connected := True\<rparr>) evs of
             None \<Rightarrow> None
           | Some (dmc1, Some err) \<Rightarrow> Some (Close dmc1, Some (HandshakeFailed err))
           | Some (dmc1, None) \<Rightarrow> Some (dmc1, None)))"

text \<open>The pool's slice \<^verbatim>\<open>clients\<close>: \<^verbatim>\<open>AddDriverManager\<close> appends to it.\<close>

type_synonym DriverManagerPool = "DriverManagerClient list"

definition AddDriverManager ::
  "DriverManagerPool \<Rightarrow> string \<Rightarrow> string + Conn \<Rightarrow> hs_event list \<Rightarrow>
   (DriverManagerPool \<times> error option) option" where
  "AddDriverManager dmp addr dialled evs =
     (case Connect (NewDriverManagerClient addr) dialled evs of
        None \<Rightarrow> None
      | Some (client, Some err) \<Rightarrow> Some (dmp, Some err)
      | Some (client, None) \<Rightarrow> Some (dmp @ [client], None))"

text \<open>
  For the pool the network's choices are told by the position of the client in the
  slice. The loop keeps the slice up to date with what each request did to its session.
\<close>

fun Pool_GetDriverInfo_loop ::
  "(nat \<Rightarrow> int \<times> wait) \<Rightarrow> string \<Rightarrow> nat \<Rightarrow> DriverManagerClient list \<Rightarrow>
   DriverManagerClient list \<times> (error + object)" where
  "Pool_GetDriverInfo_loop env driverName n [] = ([], Inl (NotFoundInAnyManager driverName))"
| "Pool_GetDriverInfo_loop env driverName n (client # rest) =
     (if \<not> IsConnected client then
        (let r = Pool_GetDriverInfo_loop env driverName (Suc n) rest in (client # fst r, snd r))
      else
        (let a = Client_GetDriverInfo client (fst (env n)) driverName (snd (env n)) in
         case snd a of
           Inr info \<Rightarrow> (fst a # rest, Inr info)
         | Inl err \<Rightarrow>
             (let r = Pool_GetDriverInfo_loop env driverName (Suc n) rest
              in (fst a # fst r, snd r))))"

definition Pool_GetDriverInfo ::
  "DriverManagerPool \<Rightarrow> (nat \<Rightarrow> int \<times> wait) \<Rightarrow> string \<Rightarrow> DriverManagerPool \<times> (error + object)" where
  "Pool_GetDriverInfo dmp env driverName = Pool_GetDriverInfo_loop env driverName 0 dmp"

section \<open>The specification's reading of the fan-out\<close>

text \<open>
  The first success in a list of attempts, as the specification words it: try each in
  order, return the first success, fail once when all fail.
\<close>

fun first_success :: "('e + 'r) list \<Rightarrow> 'r option" where
  "first_success [] = None"
| "first_success (Inl err # rest) = first_success rest"
| "first_success (Inr res # rest) = Some res"

section \<open>Predicates of the registry\<close>

text \<open>A handshake message carrying \<open>h\<close> is among the scanned lines of the events.\<close>

definition handshake_received :: "hs_event list \<Rightarrow> HandshakeInfo \<Rightarrow> bool" where
  "handshake_received evs h =
     (\<exists>l \<in> set evs. case l of
        Scanned ln \<Rightarrow> snd (Unmarshal ln) = None \<and> Type (fst (Unmarshal ln)) = ''handshake''
                        \<and> parse_handshake (fst (Unmarshal ln)) = Inr h
      | _ \<Rightarrow> False)"

text \<open>Every registered connection has a handshake.\<close>

definition all_shaken :: "DriverManagerServer \<Rightarrow> bool" where
  "all_shaken dms = (\<forall>k client. clients dms k = Some client \<longrightarrow> handshake client \<noteq> None)"

section \<open>Example values\<close>

text \<open>A registry with a driver that works and one whose \<^verbatim>\<open>Init\<close> fails, and a manager
  with an enabled and a disabled instance whose driver refuses \<^verbatim>\<open>Drop\<close>.\<close>

definition ex_driver :: "string option \<Rightarrow> string option \<Rightarrow> Driver" where
  "ex_driver init_err drop_err =
     \<lparr>storage = None, invoked = [], Init_returns = init_err, Drop_returns = drop_err,
      List_returns = (\<lambda>dir args. Inr (JArr [])), Link_returns = (\<lambda>file. Inl ''not a file''),
      Getter = None, Other = None\<rparr>"

definition ex_info :: "string \<Rightarrow> Driver \<Rightarrow> DriverInfo" where
  "ex_info n d = \<lparr>Name = n, Config = JObj [], Items = JArr [], I18n = JObj [], Constructor = d\<rparr>"

definition ex_registry :: DriverRegistry where
  "ex_registry = [(''Local'', ex_info ''Local'' (ex_driver None None)),
                  (''Broken'', ex_info ''Broken'' (ex_driver (Some ''boom'') None))]"

definition ex_instance :: "string \<Rightarrow> bool \<Rightarrow> DriverInstance" where
  "ex_instance i en =
     \<lparr>inst_ID = i, inst_Name = ''Local'', inst_Driver = ex_driver None (Some ''busy''),
      inst_Config = [], Enabled = en\<rparr>"

definition ex_manager :: DriverManager where
  "ex_manager = \<lparr>registry = ex_registry,
                 instances = [(''s-1'', ex_instance ''s-1'' True), (''s-2'', ex_instance ''s-2'' False)]\<rparr>"

text \<open>A protocol handler over that manager, with a socket that works and one that
  does not; a connected client session.\<close>

definition ex_handler :: ProtocolHandler where
  "ex_handler = \<lparr>ph_conn = \<lparr>written = [], write_error = None\<rparr>, driverManager = ex_manager\<rparr>"

definition ex_client :: DriverManagerClient where
  "ex_client = (NewDriverManagerClient ''127.0.0.1:5246'')\<lparr>connected := True\<rparr>"

definition ex_broken_handler :: ProtocolHandler where
  "ex_broken_handler = ex_handler\<lparr>ph_conn := \<lparr>written = [], write_error = Some ''broken pipe''\<rparr>\<rparr>"

text \<open>A create and an execute request with given parameters.\<close>

definition ex_create :: "object \<Rightarrow> Message" where
  "ex_create ps = \<lparr>ID = ''create_instance-1'', Type = ''request'', Method = ''create_instance'',
                   Params = Some ps, Result = None, Error = None\<rparr>"

definition ex_execute :: "object \<Rightarrow> Message" where
  "ex_execute ps = \<lparr>ID = ''execute_operation-2'', Type = ''request'',
                    Method = ''execute_operation'', Params = Some ps, Result = None, Error = None\<rparr>"

text \<open>A registered connection, and a handshake-typed line under another ID.\<close>

definition ex_connection :: DriverManagerConnection where
  "ex_connection = \<lparr>conn = \<lparr>written = [], write_error = None\<rparr>, responses = Map.empty,
                     connected = True, handshake = None, conn_ID = ''dm-1''\<rparr>"

definition ex_odd_handshake :: line where
  "ex_odd_handshake = Doc (JObj [(''id'', JStr ''hs-1''), (''type'', JStr ''handshake'')])"

text \<open>The events of a connection that sends its handshake at once, what the listener keeps
  of it, and a listener that has handled two such connections; a ping line.\<close>

definition ex_hs_events :: "hs_event list" where
  "ex_hs_events = [Scanned (Doc (marshal_Message (handshake_message ex_registry ''dm-7'')))]"

definition ex_info_received :: HandshakeInfo where
  "ex_info_received = \<lparr>DriverCount = GetDriverCount ex_registry,
      Drivers = Some (map (\<lambda>(name, driver). (name, driver_entry True driver))
                        (ListDrivers ex_registry))\<rparr>"

definition ex_registered :: "string \<Rightarrow> DriverManagerConnection" where
  "ex_registered k = \<lparr>conn = \<lparr>written = [], write_error = None\<rparr>, responses = Map.empty,
      connected = True, handshake = Some ex_info_received, conn_ID = k\<rparr>"

definition ex_server :: DriverManagerServer where
  "ex_server =
     handleConnection
       (handleConnection NewDriverManagerServer 1 \<lparr>written = [], write_error = None\<rparr> ex_hs_events)
       2 \<lparr>written = [], write_error = None\<rparr> ex_hs_events"

definition ex_ping :: line where
  "ex_ping = Doc (JObj [(''id'', JStr ''p1''), (''type'', JStr ''ping'')])"

text \<open>A peer whose handshake arrives 40 s after the wait began, and one that sends a
  ping at 40 s and its handshake a second later.\<close>

definition ex_late_handshake :: "(nat \<times> line) list" where
  "ex_late_handshake = [(40000, Doc (marshal_Message (handshake_message ex_registry ''dm-7'')))]"

definition ex_late_after_ping :: "(nat \<times> line) list" where
  "ex_late_after_ping =
     [(40000, ex_ping), (41000, Doc (marshal_Message (handshake_message ex_registry ''dm-7'')))]"

text \<open>Replies of remote managers, what the network does to the requests of a fan-out on
  the listener and on a pool of two clients, and the client a pool gains from a
  connection that sends its handshake at once.\<close>

definition ex_reply :: "string \<Rightarrow> json \<Rightarrow> Message" where
  "ex_reply i res = \<lparr>ID = i, Type = ''response'', Method = [], Params = None, Result = Some res,
                     Error = None\<rparr>"

definition ex_refusal :: "string \<Rightarrow> string \<Rightarrow> Message" where
  "ex_refusal i why = \<lparr>ID = i, Type = ''response'', Method = [], Params = None, Result = None,
                       Error = Some \<lparr>Code = 404, Message = why\<rparr>\<rparr>"

definition ex_env :: env where
  "ex_env k = (if k = ''dm-1'' then (10, Response (ex_reply ''execute_operation-10'' (JStr ''first'')))
               else (11, Response (ex_reply ''execute_operation-11'' (JStr ''second''))))"

definition ex_client2 :: DriverManagerClient where
  "ex_client2 = (NewDriverManagerClient ''127.0.0.1:5247'')\<lparr>connected := True\<rparr>"

definition ex_pool_env :: "nat \<Rightarrow> int \<times> wait" where
  "ex_pool_env n = (if n = 0 then (20, Response (ex_refusal ''get_driver_info-20'' ''driver X not found''))
                    else (21, Response (ex_reply ''get_driver_info-21'' (JObj [(''name'', JStr ''X'')]))))"

definition ex_added :: DriverManagerClient where
  "ex_added = (NewDriverManagerClient ''127.0.0.1:5246'')
                \<lparr>conn := \<lparr>written = [], write_error = None\<rparr>, connected := True,
                 handshake := Some ex_info_received\<rparr>"

text \<open>A client on which another caller's request is pending under the ID
  \<^verbatim>\<open>list_drivers-5\<close>.\<close>

definition ex_pending :: DriverManagerClient where
  "ex_pending = ex_client\<lparr>responses := [''list_drivers-5'' \<mapsto> []]\<rparr>"

section \<open>Round trip of a message through its line\<close>

lemma fold_key_literals:
  "fold_key ''id'' = ''id''" "fold_key ''type'' = ''type''" "fold_key ''method'' = ''method''"
  "fold_key ''params'' = ''params''" "fold_key ''result'' = ''result''"
  "fold_key ''error'' = ''error''" "fold_key ''code'' = ''code''"
  "fold_key ''message'' = ''message''" "fold_key ''driver_count'' = ''driver_count''"
  "fold_key ''drivers'' = ''drivers''" "fold_key ''manager_id'' = ''manager_id''"
  by (simp_all add: fold_key_def lower_char_def)

lemma decode_int_sint: "decode_int (JInt (sint (c::64 word))) = Inl (Some c)"
  using sint_lt[of c] sint_ge[of c] by (simp add: decode_int_def)

lemma ErrorInfo_members_marshal:
  "foldl ErrorInfo_member (zero_ErrorInfo, saved)
     [(''code'', JInt (sint (Code e))), (''message'', JStr (Message e))] = (e, saved)"
  by (simp add: ErrorInfo_member_def fold_key_literals decode_int_sint decode_string_def
      zero_ErrorInfo_def)

lemma member_id: "Message_member (m, s) (''id'', JStr x) = (m\<lparr>ID := x\<rparr>, s)"
  by (simp add: Message_member_def fold_key_literals decode_string_def)

lemma member_type: "Message_member (m, s) (''type'', JStr x) = (m\<lparr>Type := x\<rparr>, s)"
  by (simp add: Message_member_def fold_key_literals decode_string_def)

lemma member_method: "Message_member (m, s) (''method'', JStr x) = (m\<lparr>Method := x\<rparr>, s)"
  by (simp add: Message_member_def fold_key_literals decode_string_def)

lemma member_params:
  "Message_member (m, s) (''params'', JObj kvs) =
     (m\<lparr>Params := Some ((case Params m of None \<Rightarrow> [] | Some old \<Rightarrow> old) @ kvs)\<rparr>, s)"
  by (simp add: Message_member_def fold_key_literals)

lemma member_result:
  "Message_member (m, s) (''result'', v) =
     (m\<lparr>Result := (if v = JNull then None else Some v)\<rparr>, s)"
  by (cases v) (simp_all add: Message_member_def fold_key_literals)

lemma member_error:
  "Error m = None \<Longrightarrow>
   Message_member (m, s) (''error'', marshal_ErrorInfo e) = (m\<lparr>Error := Some e\<rparr>, s)"
  unfolding marshal_ErrorInfo_def
  by (simp add: Message_member_def fold_key_literals ErrorInfo_members_marshal del: foldl.simps)

lemma unmarshal_marshal_Message:
  "unmarshal_Message (marshal_Message m) =
     (m\<lparr>Params := (if Params m = Some [] then None else Params m),
        Result := (if Result m = Some JNull then None else Result m)\<rparr>, None)"
  by (cases m)
     (simp add: unmarshal_Message_def marshal_Message_def member_id member_type member_method
        member_params member_result member_error zero_Message_def split: option.splits)





section \<open>The instance table\<close>

lemma Create_exists:
  "map_of (instances dm) i = Some inst \<Longrightarrow>
   CreateDriverInstance dm i n cfg = (dm, Some (InstanceExists i))"
  by (simp add: CreateDriverInstance_def)

lemma Create_failure_unchanged:
  "snd (CreateDriverInstance dm j n cfg) \<noteq> None \<Longrightarrow> fst (CreateDriverInstance dm j n cfg) = dm"
  by (auto simp add: CreateDriverInstance_def Let_def split: option.splits sum.splits)

lemma Create_Init_failure:
  "map_of (instances dm) j = None \<Longrightarrow> GetDriver (registry dm) n = Inr info \<Longrightarrow>
   Init_returns (Constructor info) = Some why \<Longrightarrow>
   CreateDriverInstance dm j n cfg = (dm, Some (InitFailed why))"
  by (simp add: CreateDriverInstance_def Let_def Init_def SetStorage_def)

lemma Create_success:
  "snd (CreateDriverInstance dm j n cfg) = None \<Longrightarrow>
   \<exists>info. map_of (instances dm) j = None \<and> GetDriver (registry dm) n = Inr info
      \<and> Init_returns (Constructor info) = None
      \<and> map_of (instances (fst (CreateDriverInstance dm j n cfg))) =
          (map_of (instances dm))(j \<mapsto>
             \<lparr>inst_ID = j, inst_Name = n,
              inst_Driver = fst (Init (SetStorage (Constructor info)
                 \<lparr>Storage_ID = 0, MountPath = ''/driver-'' @ j, Storage_Driver = n,
                  Addition = cfg, Status = ''work''\<rparr>)),
              inst_Config = cfg, Enabled = True\<rparr>)"
  by (auto simp add: CreateDriverInstance_def Let_def Init_def SetStorage_def update_conv'
      split: option.splits sum.splits)

lemma Remove_unknown:
  "map_of (instances dm) j = None \<Longrightarrow> RemoveDriverInstance dm j = (dm, Some (InstanceNotFound j))"
  by (simp add: RemoveDriverInstance_def)

lemma Remove_Drop_failure:
  "map_of (instances dm) i = Some inst \<Longrightarrow> Drop_returns (inst_Driver inst) = Some why \<Longrightarrow>
   snd (RemoveDriverInstance dm i) = Some (DropFailed why)
   \<and> map_of (instances (fst (RemoveDriverInstance dm i))) =
       (map_of (instances dm))(i \<mapsto> inst\<lparr>inst_Driver := fst (Drop (inst_Driver inst))\<rparr>)"
  by (simp add: RemoveDriverInstance_def Let_def Drop_def update_conv')

lemma Remove_success:
  "map_of (instances dm) i = Some inst \<Longrightarrow> Drop_returns (inst_Driver inst) = None \<Longrightarrow>
   snd (RemoveDriverInstance dm i) = None
   \<and> map_of (instances (fst (RemoveDriverInstance dm i))) = (map_of (instances dm))(i := None)"
  by (simp add: RemoveDriverInstance_def Let_def Drop_def update_conv' delete_conv')

lemma ex_lookup:
  "map_of (instances ex_manager) ''s-1'' = Some (ex_instance ''s-1'' True)"
  "map_of (instances ex_manager) ''s-2'' = Some (ex_instance ''s-2'' False)"
  "map_of (instances ex_manager) ''s-9'' = None"
  "GetDriver (registry ex_manager) ''Broken'' = Inr (ex_info ''Broken'' (ex_driver (Some ''boom'') None))"
  "GetDriver (registry ex_manager) ''Local'' = Inr (ex_info ''Local'' (ex_driver None None))"
  by (simp_all add: ex_manager_def ex_registry_def GetDriver_def)

text \<open>
  C4. Creating an instance under an ID that is already in the table fails and changes
  nothing; any failed creation changes nothing, an \<^verbatim>\<open>Init\<close> failure included; a
  creation that succeeds found the driver, had its \<^verbatim>\<open>Init\<close> succeed and only then
  put the instance into the table, leaving the other entries alone. Removing an unknown
  ID fails and changes nothing; when \<^verbatim>\<open>Drop\<close> fails the removal fails and the entry is
  still in the table.
\<close>

theorem instance_table_guards:
  "(map_of (instances dm) i = Some inst \<longrightarrow>
      CreateDriverInstance dm i n cfg = (dm, Some (InstanceExists i)))
   \<and> (snd (CreateDriverInstance dm j bad cfg) \<noteq> None \<longrightarrow>
      fst (CreateDriverInstance dm j bad cfg) = dm)
   \<and> (map_of (instances dm) j = None \<and> GetDriver (registry dm) bad = Inr info
      \<and> Init_returns (Constructor info) = Some why \<longrightarrow>
      CreateDriverInstance dm j bad cfg = (dm, Some (InitFailed why)))
   \<and> (snd (CreateDriverInstance dm j n cfg) = None \<longrightarrow>
      (\<exists>good. map_of (instances dm) j = None \<and> GetDriver (registry dm) n = Inr good
         \<and> Init_returns (Constructor good) = None
         \<and> map_of (instances (fst (CreateDriverInstance dm j n cfg))) =
             (map_of (instances dm))(j \<mapsto>
               \<lparr>inst_ID = j, inst_Name = n,
                inst_Driver = fst (Init (SetStorage (Constructor good)
                   \<lparr>Storage_ID = 0, MountPath = ''/driver-'' @ j, Storage_Driver = n,
                    Addition = cfg, Status = ''work''\<rparr>)),
                inst_Config = cfg, Enabled = True\<rparr>)))
   \<and> (map_of (instances dm) j = None \<longrightarrow>
      RemoveDriverInstance dm j = (dm, Some (InstanceNotFound j)))
   \<and> (map_of (instances dm) i = Some inst \<and> Drop_returns (inst_Driver inst) = Some busy \<longrightarrow>
      snd (RemoveDriverInstance dm i) = Some (DropFailed busy)
      \<and> map_of (instances (fst (RemoveDriverInstance dm i))) =
          (map_of (instances dm))(i \<mapsto> inst\<lparr>inst_Driver := fst (Drop (inst_Driver inst))\<rparr>))"
proof (intro conjI impI)
  assume "map_of (instances dm) i = Some inst"
  then show "CreateDriverInstance dm i n cfg = (dm, Some (InstanceExists i))"
    by (rule Create_exists)
next
  assume "snd (CreateDriverInstance dm j bad cfg) \<noteq> None"
  then show "fst (CreateDriverInstance dm j bad cfg) = dm"
    by (rule Create_failure_unchanged)
next
  assume "map_of (instances dm) j = None \<and> GetDriver (registry dm) bad = Inr info
      \<and> Init_returns (Constructor info) = Some why"
  then show "CreateDriverInstance dm j bad cfg = (dm, Some (InitFailed why))"
    by (simp add: Create_Init_failure)
next
  assume "snd (CreateDriverInstance dm j n cfg) = None"
  then show "\<exists>good. map_of (instances dm) j = None \<and> GetDriver (registry dm) n = Inr good
         \<and> Init_returns (Constructor good) = None
         \<and> map_of (instances (fst (CreateDriverInstance dm j n cfg))) =
             (map_of (instances dm))(j \<mapsto>
               \<lparr>inst_ID = j, inst_Name = n,
                inst_Driver = fst (Init (SetStorage (Constructor good)
                   \<lparr>Storage_ID = 0, MountPath = ''/driver-'' @ j, Storage_Driver = n,
                    Addition = cfg, Status = ''work''\<rparr>)),
                inst_Config = cfg, Enabled = True\<rparr>)"
    by (rule Create_success)
next
  assume "map_of (instances dm) j = None"
  then show "RemoveDriverInstance dm j = (dm, Some (InstanceNotFound j))"
    by (rule Remove_unknown)
next
  assume a: "map_of (instances dm) i = Some inst \<and> Drop_returns (inst_Driver inst) = Some busy"
  then show "snd (RemoveDriverInstance dm i) = Some (DropFailed busy)"
    using Remove_Drop_failure by blast
  from a show "map_of (instances (fst (RemoveDriverInstance dm i))) =
          (map_of (instances dm))(i \<mapsto> inst\<lparr>inst_Driver := fst (Drop (inst_Driver inst))\<rparr>)"
    using Remove_Drop_failure by blast
qed

theorem instance_table_guards_witness:
  "CreateDriverInstance ex_manager ''s-1'' ''Local'' [] = (ex_manager, Some (InstanceExists ''s-1''))
   \<and> fst (CreateDriverInstance ex_manager ''s-9'' ''Broken'' []) = ex_manager
   \<and> CreateDriverInstance ex_manager ''s-9'' ''Broken'' [] = (ex_manager, Some (InitFailed ''boom''))
   \<and> snd (CreateDriverInstance ex_manager ''s-9'' ''Local'' []) = None
   \<and> map_of (instances (fst (CreateDriverInstance ex_manager ''s-9'' ''Local'' []))) ''s-9'' \<noteq> None
   \<and> map_of (instances (fst (CreateDriverInstance ex_manager ''s-9'' ''Local'' []))) ''s-1''
       = map_of (instances ex_manager) ''s-1''
   \<and> RemoveDriverInstance ex_manager ''s-9'' = (ex_manager, Some (InstanceNotFound ''s-9''))
   \<and> snd (RemoveDriverInstance ex_manager ''s-1'') = Some (DropFailed ''busy'')
   \<and> map_of (instances (fst (RemoveDriverInstance ex_manager ''s-1''))) ''s-1'' \<noteq> None"
proof -
  have ok: "snd (CreateDriverInstance ex_manager ''s-9'' ''Local'' []) = None"
    by (simp add: CreateDriverInstance_def ex_lookup Let_def Init_def SetStorage_def ex_info_def
        ex_driver_def)
  have bad: "snd (CreateDriverInstance ex_manager ''s-9'' ''Broken'' []) \<noteq> None"
    by (simp add: CreateDriverInstance_def ex_lookup Let_def Init_def SetStorage_def ex_info_def
        ex_driver_def)
  have init: "Init_returns (Constructor (ex_info ''Broken'' (ex_driver (Some ''boom'') None))) = Some ''boom''"
    by (simp add: ex_info_def ex_driver_def)
  have drop: "Drop_returns (inst_Driver (ex_instance ''s-1'' True)) = Some ''busy''"
    by (simp add: ex_instance_def ex_driver_def)
  show ?thesis
    using instance_table_guards [of ex_manager "''s-1''" "ex_instance ''s-1'' True" "''Local''" "[]"
        "''s-9''" "''Broken''" "ex_info ''Broken'' (ex_driver (Some ''boom'') None)" "''boom''" "''busy''"]
      ok bad init drop ex_lookup
    by auto
qed

section \<open>Executing an operation\<close>

lemma Execute_disabled:
  "map_of (instances dm) i = Some inst \<Longrightarrow> \<not> Enabled inst \<Longrightarrow>
   ExecuteDriverOperation dm i operation ps = (dm, Inl (InstanceDisabled i))"
  by (simp add: ExecuteDriverOperation_def GetDriverInstance_def IsDriverInstanceEnabled_def)

lemma Execute_after_Disable:
  "map_of (instances dm) i = Some inst \<Longrightarrow>
   ExecuteDriverOperation (fst (DisableDriverInstance dm i)) i operation ps =
     (fst (DisableDriverInstance dm i), Inl (InstanceDisabled i))"
  by (simp add: ExecuteDriverOperation_def GetDriverInstance_def IsDriverInstanceEnabled_def
      DisableDriverInstance_def update_conv')

lemma Execute_after_Enable:
  "map_of (instances dm) i = Some inst \<Longrightarrow>
   snd (ExecuteDriverOperation (fst (EnableDriverInstance dm i)) i operation ps)
     \<noteq> Inl (InstanceDisabled i)"
  by (auto simp add: ExecuteDriverOperation_def GetDriverInstance_def IsDriverInstanceEnabled_def
      EnableDriverInstance_def update_conv' executeListOperation_def executeLinkOperation_def
      executeGetOperation_def executeOtherOperation_def Let_def driver_result_def
      split: option.splits sum.splits)

lemma Execute_absent:
  "map_of (instances dm) j = None \<Longrightarrow>
   ExecuteDriverOperation dm j operation ps = (dm, Inl (InstanceNotFound j))"
  by (simp add: ExecuteDriverOperation_def GetDriverInstance_def)

lemma Execute_unknown_operation:
  "operation \<notin> {''list'', ''link'', ''get'', ''other''} \<Longrightarrow>
   fst (ExecuteDriverOperation dm k operation ps) = dm
   \<and> isl (snd (ExecuteDriverOperation dm k operation ps))
   \<and> (IsDriverInstanceEnabled dm k \<longrightarrow>
        snd (ExecuteDriverOperation dm k operation ps) = Inl (UnsupportedOperation operation))"
  by (auto simp add: ExecuteDriverOperation_def GetDriverInstance_def IsDriverInstanceEnabled_def
      split: option.splits)

lemma Execute_missing_path:
  "operation \<in> {''list'', ''link'', ''get''} \<Longrightarrow> as_string (index ps ''path'') = None \<Longrightarrow>
   fst (ExecuteDriverOperation dm k operation ps) = dm
   \<and> isl (snd (ExecuteDriverOperation dm k operation ps))
   \<and> (IsDriverInstanceEnabled dm k \<and> operation \<noteq> ''get'' \<longrightarrow>
        snd (ExecuteDriverOperation dm k operation ps) = Inl PathRequired)"
  by (auto simp add: ExecuteDriverOperation_def GetDriverInstance_def IsDriverInstanceEnabled_def
      executeListOperation_def executeLinkOperation_def executeGetOperation_def
      split: option.splits)

text \<open>
  C5. An operation on an instance that is in the table but disabled fails with the
  "disabled" error, whatever the operation; it does so after every disable and no
  longer after an enable. An operation on an ID that is not in the table fails. An
  operation name other than list, link, get and other, and a list, link or get without
  a string \<^verbatim>\<open>path\<close>, fail and leave the manager as it was, the record of the methods
  invoked on every driver included.
\<close>

theorem ExecuteDriverOperation_rejections:
  "(map_of (instances dm) i = Some inst \<and> \<not> Enabled inst \<longrightarrow>
      ExecuteDriverOperation dm i operation ps = (dm, Inl (InstanceDisabled i)))
   \<and> (map_of (instances dm) e = Some einst \<longrightarrow>
      ExecuteDriverOperation (fst (DisableDriverInstance dm e)) e operation ps =
        (fst (DisableDriverInstance dm e), Inl (InstanceDisabled e))
      \<and> snd (ExecuteDriverOperation (fst (EnableDriverInstance dm e)) e operation ps)
          \<noteq> Inl (InstanceDisabled e))
   \<and> (map_of (instances dm) j = None \<longrightarrow>
      ExecuteDriverOperation dm j operation ps = (dm, Inl (InstanceNotFound j)))
   \<and> (unknown \<notin> {''list'', ''link'', ''get'', ''other''} \<longrightarrow>
      fst (ExecuteDriverOperation dm k unknown ps) = dm
      \<and> isl (snd (ExecuteDriverOperation dm k unknown ps))
      \<and> (IsDriverInstanceEnabled dm k \<longrightarrow>
           snd (ExecuteDriverOperation dm k unknown ps) = Inl (UnsupportedOperation unknown)))
   \<and> (pathop \<in> {''list'', ''link'', ''get''} \<and> as_string (index nopath ''path'') = None \<longrightarrow>
      fst (ExecuteDriverOperation dm k pathop nopath) = dm
      \<and> isl (snd (ExecuteDriverOperation dm k pathop nopath))
      \<and> (IsDriverInstanceEnabled dm k \<and> pathop \<noteq> ''get'' \<longrightarrow>
           snd (ExecuteDriverOperation dm k pathop nopath) = Inl PathRequired))"
proof (intro conjI impI)
  assume "map_of (instances dm) i = Some inst \<and> \<not> Enabled inst"
  then show "ExecuteDriverOperation dm i operation ps = (dm, Inl (InstanceDisabled i))"
    by (simp add: Execute_disabled)
next
  assume a: "map_of (instances dm) e = Some einst"
  then show "ExecuteDriverOperation (fst (DisableDriverInstance dm e)) e operation ps =
        (fst (DisableDriverInstance dm e), Inl (InstanceDisabled e))"
    by (rule Execute_after_Disable)
  from a show "snd (ExecuteDriverOperation (fst (EnableDriverInstance dm e)) e operation ps)
          \<noteq> Inl (InstanceDisabled e)"
    by (rule Execute_after_Enable)
next
  assume "map_of (instances dm) j = None"
  then show "ExecuteDriverOperation dm j operation ps = (dm, Inl (InstanceNotFound j))"
    by (rule Execute_absent)
next
  assume a: "unknown \<notin> {''list'', ''link'', ''get'', ''other''}"
  show "fst (ExecuteDriverOperation dm k unknown ps) = dm"
    using Execute_unknown_operation [OF a] by blast
  show "isl (snd (ExecuteDriverOperation dm k unknown ps))"
    using Execute_unknown_operation [OF a] by blast
  assume "IsDriverInstanceEnabled dm k"
  then show "snd (ExecuteDriverOperation dm k unknown ps) = Inl (UnsupportedOperation unknown)"
    using Execute_unknown_operation [OF a] by blast
next
  assume a: "pathop \<in> {''list'', ''link'', ''get''} \<and> as_string (index nopath ''path'') = None"
  then have b: "pathop \<in> {''list'', ''link'', ''get''}" and c: "as_string (index nopath ''path'') = None"
    by simp_all
  show "fst (ExecuteDriverOperation dm k pathop nopath) = dm"
    using Execute_missing_path [OF b c] by blast
  show "isl (snd (ExecuteDriverOperation dm k pathop nopath))"
    using Execute_missing_path [OF b c] by blast
  assume "IsDriverInstanceEnabled dm k \<and> pathop \<noteq> ''get''"
  then show "snd (ExecuteDriverOperation dm k pathop nopath) = Inl PathRequired"
    using Execute_missing_path [OF b c] by blast
qed

theorem ExecuteDriverOperation_rejections_witness:
  "ExecuteDriverOperation ex_manager ''s-2'' ''list'' [(''path'', JStr ''/'')]
     = (ex_manager, Inl (InstanceDisabled ''s-2''))
   \<and> ExecuteDriverOperation (fst (DisableDriverInstance ex_manager ''s-1'')) ''s-1'' ''list''
        [(''path'', JStr ''/'')]
     = (fst (DisableDriverInstance ex_manager ''s-1''), Inl (InstanceDisabled ''s-1''))
   \<and> snd (ExecuteDriverOperation (fst (EnableDriverInstance ex_manager ''s-1'')) ''s-1'' ''list''
        [(''path'', JStr ''/'')]) \<noteq> Inl (InstanceDisabled ''s-1'')
   \<and> ExecuteDriverOperation ex_manager ''s-9'' ''list'' [(''path'', JStr ''/'')]
     = (ex_manager, Inl (InstanceNotFound ''s-9''))
   \<and> ExecuteDriverOperation ex_manager ''s-1'' ''bogus'' [(''path'', JStr ''/'')]
     = (ex_manager, Inl (UnsupportedOperation ''bogus''))
   \<and> ExecuteDriverOperation ex_manager ''s-1'' ''list'' [(''refresh'', JBool True)]
     = (ex_manager, Inl PathRequired)"
proof -
  have en: "IsDriverInstanceEnabled ex_manager ''s-1''"
    by (simp add: IsDriverInstanceEnabled_def ex_lookup ex_instance_def)
  have dis: "\<not> Enabled (ex_instance ''s-2'' False)"
    by (simp add: ex_instance_def)
  have unk: "''bogus'' \<notin> {''list'', ''link'', ''get'', ''other''}" by simp
  have pth: "''list'' \<in> {''list'', ''link'', ''get''}"
    "as_string (index [(''refresh'', JBool True)] ''path'') = None" by (simp_all add: index_def)
  from ExecuteDriverOperation_rejections [of ex_manager "''s-2''" "ex_instance ''s-2'' False"
      "''list''" "[(''path'', JStr ''/'')]" "''s-1''" "ex_instance ''s-1'' True" "''s-9''"
      "''bogus''" "''s-1''" "''list''" "[(''refresh'', JBool True)]"]
    en dis unk pth ex_lookup
  show ?thesis by (simp add: prod_eq_iff)
qed

section \<open>Lines that do not parse\<close>

lemma sendMessage_healthy:
  "write_error (ph_conn ph) = None \<Longrightarrow>
   sendMessage ph msg =
     (ph\<lparr>ph_conn := (ph_conn ph)\<lparr>written := written (ph_conn ph) @ [marshal_Message msg]\<rparr>\<rparr>, None)"
  by (simp add: sendMessage_def Write_def)

lemma sendMessage_broken:
  "write_error (ph_conn ph) = Some why \<Longrightarrow> sendMessage ph msg = (ph, Some (WriteFailed why))"
  by (simp add: sendMessage_def Write_def)

lemma processMessage_unparseable:
  "snd (Unmarshal l) = Some err \<Longrightarrow>
   processMessage ph l =
     sendError ph (ID (fst (Unmarshal l))) 400 (''Invalid JSON: '' @ json_error_text err)"
  by (simp add: processMessage_def Let_def)

lemma process_line_unparseable:
  "snd (Unmarshal l) \<noteq> None \<Longrightarrow> process_line dmc l = dmc"
  by (simp add: process_line_def Let_def)

lemma processMessages_unparseable:
  "snd (Unmarshal l) \<noteq> None \<Longrightarrow>
   processMessages dmc ((False, l) # rest) = processMessages dmc rest"
  by (simp add: process_line_unparseable)

lemma Handle_unparseable_healthy:
  assumes "snd (Unmarshal l) = Some err" "l \<noteq> Blank" "write_error (ph_conn ph) = None"
  shows "Handle ph ((False, l) # rest) scan_err =
     Handle (ph\<lparr>ph_conn := (ph_conn ph)\<lparr>written := written (ph_conn ph) @
        [marshal_Message \<lparr>ID = ID (fst (Unmarshal l)), Type = ''response'', Method = [],
           Params = None, Result = None,
           Error = Some \<lparr>Code = 400, Message = ''Invalid JSON: '' @ json_error_text err\<rparr>\<rparr>]\<rparr>\<rparr>)
       rest scan_err"
  using assms by (simp add: processMessage_unparseable sendError_def sendMessage_healthy)

lemma Handle_unparseable_broken:
  assumes "snd (Unmarshal l) = Some err" "l \<noteq> Blank" "write_error (ph_conn ph) = Some why"
  shows "Handle ph ((False, l) # rest) scan_err = (ph, Some (ProcessFailed (WriteFailed why)))"
  using assms by (simp add: processMessage_unparseable sendError_def sendMessage_broken)

text \<open>
  C1 (as amended). On the host side (\<^verbatim>\<open>processMessages\<close> of a client or a registered
  connection) a line that does not parse, an empty one included, leaves the session as
  it is, nothing is sent, and the loop goes on with the next line. On the remote side
  \<^verbatim>\<open>Handle\<close> skips an empty line in the same way, without an answer. Every other line
  that does not parse is answered by \<^verbatim>\<open>processMessage\<close> with an error response of
  code 400 under the ID decoded so far; \<^verbatim>\<open>Handle\<close> then goes on with the next line
  when the write succeeded, and returns the write's error, ending the session, when it
  failed.
\<close>

theorem unparseable_line_handling:
  "(snd (Unmarshal l) \<noteq> None \<longrightarrow>
      process_line dmc l = dmc
      \<and> processMessages dmc ((False, l) # rest) = processMessages dmc rest)
   \<and> snd (Unmarshal Blank) \<noteq> None
   \<and> Handle ph ((False, Blank) # later) scan_err = Handle ph later scan_err
   \<and> (snd (Unmarshal l) = Some err \<and> l \<noteq> Blank \<and> write_error (ph_conn ph) = None \<longrightarrow>
      processMessage ph l =
        (ph\<lparr>ph_conn := (ph_conn ph)\<lparr>written := written (ph_conn ph) @
           [marshal_Message \<lparr>ID = ID (fst (Unmarshal l)), Type = ''response'', Method = [],
              Params = None, Result = None,
              Error = Some \<lparr>Code = 400, Message = ''Invalid JSON: '' @ json_error_text err\<rparr>\<rparr>]\<rparr>\<rparr>,
         None)
      \<and> Handle ph ((False, l) # later) scan_err =
          Handle (fst (processMessage ph l)) later scan_err)
   \<and> (snd (Unmarshal l) = Some err \<and> l \<noteq> Blank \<and> write_error (ph_conn ph2) = Some why \<longrightarrow>
      Handle ph2 ((False, l) # later) scan_err = (ph2, Some (ProcessFailed (WriteFailed why))))"
proof (intro conjI impI)
  assume a: "snd (Unmarshal l) \<noteq> None"
  then show "process_line dmc l = dmc" by (rule process_line_unparseable)
  from a show "processMessages dmc ((False, l) # rest) = processMessages dmc rest"
    by (rule processMessages_unparseable)
next
  show "snd (Unmarshal Blank) \<noteq> None" by (simp add: Unmarshal_def)
  show "Handle ph ((False, Blank) # later) scan_err = Handle ph later scan_err" by simp
next
  assume a: "snd (Unmarshal l) = Some err \<and> l \<noteq> Blank \<and> write_error (ph_conn ph) = None"
  then show p: "processMessage ph l =
        (ph\<lparr>ph_conn := (ph_conn ph)\<lparr>written := written (ph_conn ph) @
           [marshal_Message \<lparr>ID = ID (fst (Unmarshal l)), Type = ''response'', Method = [],
              Params = None, Result = None,
              Error = Some \<lparr>Code = 400, Message = ''Invalid JSON: '' @ json_error_text err\<rparr>\<rparr>]\<rparr>\<rparr>,
         None)"
    by (simp add: processMessage_unparseable sendError_def sendMessage_healthy)
  from a show "Handle ph ((False, l) # later) scan_err =
          Handle (fst (processMessage ph l)) later scan_err"
    by (simp add: p)
next
  assume "snd (Unmarshal l) = Some err \<and> l \<noteq> Blank \<and> write_error (ph_conn ph2) = Some why"
  then show "Handle ph2 ((False, l) # later) scan_err = (ph2, Some (ProcessFailed (WriteFailed why)))"
    using Handle_unparseable_broken by blast
qed

theorem unparseable_line_handling_witness:
  "process_line ex_client (Malformed ''invalid character'') = ex_client
   \<and> processMessages ex_client [(False, Malformed ''invalid character''), (False, Blank)]
       = processMessages ex_client [(False, Blank)]
   \<and> processMessages ex_client [(False, Blank)] = processMessages ex_client []
   \<and> Handle ex_handler [(False, Blank)] None = (ex_handler, None)
   \<and> snd (processMessage ex_handler (Malformed ''invalid character'')) = None
   \<and> Handle ex_handler [(False, Malformed ''invalid character'')] None
       = (fst (processMessage ex_handler (Malformed ''invalid character'')), None)
   \<and> Handle ex_broken_handler [(False, Malformed ''invalid character'')] None
       = (ex_broken_handler, Some (ProcessFailed (WriteFailed ''broken pipe'')))"
proof -
  have u: "snd (Unmarshal (Malformed ''invalid character'')) = Some (SyntaxError ''invalid character'')"
    by (simp add: Unmarshal_def)
  have h: "write_error (ph_conn ex_handler) = None"
    by (simp add: ex_handler_def)
  have b: "write_error (ph_conn ex_broken_handler) = Some ''broken pipe''"
    by (simp add: ex_broken_handler_def)
  from unparseable_line_handling [of "Malformed ''invalid character''" ex_client "[(False, Blank)]"
      ex_handler "[]" None "SyntaxError ''invalid character''" ex_broken_handler "''broken pipe''"]
    u h b
  have m: "process_line ex_client (Malformed ''invalid character'') = ex_client
   \<and> processMessages ex_client [(False, Malformed ''invalid character''), (False, Blank)]
       = processMessages ex_client [(False, Blank)]
   \<and> Handle ex_handler [(False, Blank)] None = (ex_handler, None)
   \<and> snd (processMessage ex_handler (Malformed ''invalid character'')) = None
   \<and> Handle ex_handler [(False, Malformed ''invalid character'')] None
       = (fst (processMessage ex_handler (Malformed ''invalid character'')), None)
   \<and> Handle ex_broken_handler [(False, Malformed ''invalid character'')] None
       = (ex_broken_handler, Some (ProcessFailed (WriteFailed ''broken pipe'')))"
    by simp
  from unparseable_line_handling [of Blank ex_client "[]"]
  have e: "processMessages ex_client [(False, Blank)] = processMessages ex_client []"
    by blast
  from m e show ?thesis by blast
qed

lemma Unmarshal_Malformed: "Unmarshal (Malformed why) = (zero_Message, Some (SyntaxError why))"
  by (simp add: Unmarshal_def)

text \<open>
  C1 as stated fails on the remote side: the protocol handler answers a line that is
  not empty and not JSON with an error response of code 400.
\<close>

theorem unparseable_line_answered_counterexample:
  "snd (Unmarshal (Malformed ''invalid character'')) \<noteq> None
   \<and> written (ph_conn (fst (processMessage ex_handler (Malformed ''invalid character'')))) =
       [marshal_Message \<lparr>ID = [], Type = ''response'', Method = [], Params = None, Result = None,
          Error = Some \<lparr>Code = 400, Message = ''Invalid JSON: invalid character''\<rparr>\<rparr>]
   \<and> written (ph_conn ex_handler) = []"
  by (simp add: processMessage_def Unmarshal_Malformed sendError_def sendMessage_def Write_def
      ex_handler_def zero_Message_def)

section \<open>Parameters of create and execute requests\<close>

text \<open>
  C10. In the remote-side handler a \<^verbatim>\<open>create_instance\<close> request whose \<^verbatim>\<open>config\<close> is
  missing or not an object goes on to the manager with an empty configuration, and an
  \<^verbatim>\<open>execute_operation\<close> request whose \<^verbatim>\<open>params\<close> is missing or not an object goes
  on with empty parameters: the answer is the manager's (success, or an error of code
  500). A missing or non-string \<^verbatim>\<open>instance_id\<close>, \<^verbatim>\<open>driver\<close> or \<^verbatim>\<open>operation\<close> is
  answered with an error of code 400 and the manager is not called.
\<close>

theorem handler_parameter_checks:
  "(as_string (index_nilable (Params msg) ''instance_id'') = Some instanceID
     \<and> as_string (index_nilable (Params msg) ''driver'') = Some driverName
     \<and> as_map (index_nilable (Params msg) ''config'') = None \<longrightarrow>
      handleCreateInstance ph msg =
        (case snd (CreateDriverInstance (driverManager ph) instanceID driverName []) of
           Some err \<Rightarrow>
             sendError (ph\<lparr>driverManager :=
                 fst (CreateDriverInstance (driverManager ph) instanceID driverName [])\<rparr>)
               (ID msg) 500 (error_text err)
         | None \<Rightarrow>
             respond (ph\<lparr>driverManager :=
                 fst (CreateDriverInstance (driverManager ph) instanceID driverName [])\<rparr>)
               (ID msg) (Some (JStr ''success''))))
   \<and> (as_string (index_nilable (Params msg) ''instance_id'') = Some instanceID
     \<and> as_string (index_nilable (Params msg) ''operation'') = Some operation
     \<and> as_map (index_nilable (Params msg) ''params'') = None \<longrightarrow>
      handleExecuteOperation ph msg =
        (case snd (ExecuteDriverOperation (driverManager ph) instanceID operation []) of
           Inl err \<Rightarrow>
             sendError (ph\<lparr>driverManager :=
                 fst (ExecuteDriverOperation (driverManager ph) instanceID operation [])\<rparr>)
               (ID msg) 500 (error_text err)
         | Inr res \<Rightarrow>
             respond (ph\<lparr>driverManager :=
                 fst (ExecuteDriverOperation (driverManager ph) instanceID operation [])\<rparr>)
               (ID msg) res))
   \<and> (as_string (index_nilable (Params bad) ''instance_id'') = None \<longrightarrow>
      handleCreateInstance ph bad = sendError ph (ID bad) 400 ''instance_id parameter is required''
      \<and> handleExecuteOperation ph bad =
          sendError ph (ID bad) 400 ''instance_id parameter is required'')
   \<and> (as_string (index_nilable (Params msg) ''instance_id'') = Some instanceID
     \<and> as_string (index_nilable (Params msg) ''driver'') = None \<longrightarrow>
      handleCreateInstance ph msg = sendError ph (ID msg) 400 ''driver parameter is required'')
   \<and> (as_string (index_nilable (Params msg) ''instance_id'') = Some instanceID
     \<and> as_string (index_nilable (Params msg) ''operation'') = None \<longrightarrow>
      handleExecuteOperation ph msg = sendError ph (ID msg) 400 ''operation parameter is required'')
   \<and> (write_error (ph_conn ph) = None \<longrightarrow>
      sendError ph i code text =
        (ph\<lparr>ph_conn := (ph_conn ph)\<lparr>written := written (ph_conn ph) @
           [marshal_Message \<lparr>ID = i, Type = ''response'', Method = [], Params = None,
              Result = None, Error = Some \<lparr>Code = code, Message = text\<rparr>\<rparr>]\<rparr>\<rparr>, None))"
  by (simp add: handleCreateInstance_def handleExecuteOperation_def Let_def sendError_def
      sendMessage_healthy split: option.splits sum.splits)

lemma ex_handler_fields:
  "driverManager ex_handler = ex_manager" "write_error (ph_conn ex_handler) = None"
  "written (ph_conn ex_handler) = []"
  by (simp_all add: ex_handler_def)

theorem handler_parameter_checks_witness:
  "snd (handleCreateInstance ex_handler
          (ex_create [(''instance_id'', JStr ''s-9''), (''driver'', JStr ''Local'')])) = None
   \<and> written (ph_conn (fst (handleCreateInstance ex_handler
          (ex_create [(''instance_id'', JStr ''s-9''), (''driver'', JStr ''Local'')])))) =
       [marshal_Message \<lparr>ID = ''create_instance-1'', Type = ''response'', Method = [],
          Params = None, Result = Some (JStr ''success''), Error = None\<rparr>]
   \<and> map_of (instances (driverManager (fst (handleCreateInstance ex_handler
          (ex_create [(''instance_id'', JStr ''s-9''), (''driver'', JStr ''Local'')]))))) ''s-9''
       \<noteq> None
   \<and> written (ph_conn (fst (handleExecuteOperation ex_handler
          (ex_execute [(''instance_id'', JStr ''s-1''), (''operation'', JStr ''list'')])))) =
       [marshal_Message \<lparr>ID = ''execute_operation-2'', Type = ''response'', Method = [],
          Params = None, Result = None,
          Error = Some \<lparr>Code = 500, Message = ''path parameter is required''\<rparr>\<rparr>]
   \<and> written (ph_conn (fst (handleCreateInstance ex_handler (ex_create [(''driver'', JStr ''Local'')])))) =
       [marshal_Message \<lparr>ID = ''create_instance-1'', Type = ''response'', Method = [],
          Params = None, Result = None,
          Error = Some \<lparr>Code = 400, Message = ''instance_id parameter is required''\<rparr>\<rparr>]
   \<and> written (ph_conn (fst (handleExecuteOperation ex_handler (ex_create [(''driver'', JStr ''Local'')])))) =
       [marshal_Message \<lparr>ID = ''create_instance-1'', Type = ''response'', Method = [],
          Params = None, Result = None,
          Error = Some \<lparr>Code = 400, Message = ''instance_id parameter is required''\<rparr>\<rparr>]
   \<and> written (ph_conn (fst (handleCreateInstance ex_handler
          (ex_create [(''instance_id'', JStr ''s-9''), (''driver'', JInt 5)])))) =
       [marshal_Message \<lparr>ID = ''create_instance-1'', Type = ''response'', Method = [],
          Params = None, Result = None,
          Error = Some \<lparr>Code = 400, Message = ''driver parameter is required''\<rparr>\<rparr>]
   \<and> written (ph_conn (fst (handleExecuteOperation ex_handler
          (ex_execute [(''instance_id'', JStr ''s-1'')])))) =
       [marshal_Message \<lparr>ID = ''execute_operation-2'', Type = ''response'', Method = [],
          Params = None, Result = None,
          Error = Some \<lparr>Code = 400, Message = ''operation parameter is required''\<rparr>\<rparr>]"
proof -
  have c: "snd (CreateDriverInstance ex_manager ''s-9'' ''Local'' []) = None"
    "map_of (instances (fst (CreateDriverInstance ex_manager ''s-9'' ''Local'' []))) ''s-9'' \<noteq> None"
    by (simp_all add: CreateDriverInstance_def ex_lookup Let_def Init_def SetStorage_def ex_info_def
        ex_driver_def update_conv')
  have e: "ExecuteDriverOperation ex_manager ''s-1'' ''list'' [] = (ex_manager, Inl PathRequired)"
    by (simp add: ExecuteDriverOperation_def GetDriverInstance_def IsDriverInstanceEnabled_def
        ex_lookup ex_instance_def executeListOperation_def index_def)
  note t1 = handler_parameter_checks [of
      "ex_create [(''instance_id'', JStr ''s-9''), (''driver'', JStr ''Local'')]" "''s-9''"
      "''Local''" ex_handler "''list''" "ex_create [(''driver'', JStr ''Local'')]"
      "''create_instance-1''" 400 "''instance_id parameter is required''"]
  note t2 = handler_parameter_checks [of
      "ex_execute [(''instance_id'', JStr ''s-1''), (''operation'', JStr ''list'')]" "''s-1''"
      "''Local''" ex_handler "''list''" "ex_create [(''driver'', JStr ''Local'')]"
      "''execute_operation-2''" 500 "''path parameter is required''"]
  note t3 = handler_parameter_checks [of
      "ex_create [(''instance_id'', JStr ''s-9''), (''driver'', JInt 5)]" "''s-9''"
      "''Local''" ex_handler "''list''" "ex_create [(''driver'', JStr ''Local'')]"
      "''create_instance-1''" 400 "''driver parameter is required''"]
  note t4 = handler_parameter_checks [of
      "ex_execute [(''instance_id'', JStr ''s-1'')]" "''s-1''"
      "''Local''" ex_handler "''list''" "ex_create [(''driver'', JStr ''Local'')]"
      "''execute_operation-2''" 400 "''operation parameter is required''"]
  from t1 t2 t3 t4 c e show ?thesis
    by (simp add: ex_create_def ex_execute_def index_nilable_def index_def ex_handler_fields
        respond_def sendError_def sendMessage_healthy)
qed

section \<open>The handshake\<close>

lemma SendHandshake_message:
  "SendHandshake ph managerID = sendMessage ph (handshake_message (registry (driverManager ph)) managerID)"
  by (simp add: SendHandshake_def)

lemma Unmarshal_Blank: "snd (Unmarshal Blank) \<noteq> None"
  by (simp add: Unmarshal_def)

lemma Unmarshal_handshake_message:
  "Unmarshal (Doc (marshal_Message (handshake_message reg managerID))) =
     (handshake_message reg managerID, None)"
  by (simp add: Unmarshal_def unmarshal_marshal_Message) (simp add: handshake_message_def)

lemma parse_handshake_message:
  "parse_handshake (handshake_message reg managerID) =
     Inr \<lparr>DriverCount = GetDriverCount reg,
          Drivers = Some (map (\<lambda>(name, driver). (name, driver_entry True driver)) (ListDrivers reg))\<rparr>"
  by (simp add: parse_handshake_def handshake_message_def unmarshal_HandshakeInfo_def
      HandshakeInfo_member_def fold_key_literals decode_int_sint zero_HandshakeInfo_def)

lemma client_skips:
  assumes "snd (Unmarshal l) = None"
    and "\<not> (Type (fst (Unmarshal l)) = ''handshake'' \<and> ID (fst (Unmarshal l)) = ''handshake'')"
  shows "client_waitForHandshake dmc (Scanned l # evs) = client_waitForHandshake dmc evs"
  using assms by (auto simp add: Let_def)

lemma client_takes:
  assumes "snd (Unmarshal l) = None"
    and "Type (fst (Unmarshal l)) = ''handshake''" and "ID (fst (Unmarshal l)) = ''handshake''"
  shows "client_waitForHandshake dmc (Scanned l # evs) =
     (case parse_handshake (fst (Unmarshal l)) of
        Inl err \<Rightarrow> Some (dmc, Some err)
      | Inr h \<Rightarrow> Some (dmc\<lparr>handshake := Some h\<rparr>, None))"
  using assms Unmarshal_Blank by (auto simp add: Let_def)

lemma server_takes:
  assumes "snd (Unmarshal l) = None" and "Type (fst (Unmarshal l)) = ''handshake''"
  shows "server_waitForHandshake client (Scanned l # evs) =
     (case parse_handshake (fst (Unmarshal l)) of
        Inl err \<Rightarrow> Some (client, Some err)
      | Inr h \<Rightarrow> Some (client\<lparr>handshake := Some h\<rparr>, None))"
  using assms Unmarshal_Blank by (auto simp add: Let_def)

lemma server_skips:
  assumes "snd (Unmarshal l) = None" and "Type (fst (Unmarshal l)) \<noteq> ''handshake''"
  shows "server_waitForHandshake client (Scanned l # evs) = server_waitForHandshake client evs"
  using assms by (auto simp add: Let_def)

text \<open>
  C9. The client's wait skips every parsed message unless both its type and its ID are
  \<^verbatim>\<open>"handshake"\<close>, so a handshake-typed message under another ID is skipped; the
  server's wait takes any parsed message of type \<^verbatim>\<open>"handshake"\<close>, whatever its ID.
  \<^verbatim>\<open>SendHandshake\<close> writes a message whose ID and type are both \<^verbatim>\<open>"handshake"\<close>; read
  back from its line it is unchanged, and both waits take it and store the driver count
  and the catalogue it carries.
\<close>

theorem handshake_acceptance:
  "(snd (Unmarshal l) = None
     \<and> \<not> (Type (fst (Unmarshal l)) = ''handshake'' \<and> ID (fst (Unmarshal l)) = ''handshake'') \<longrightarrow>
      client_waitForHandshake dmc (Scanned l # evs) = client_waitForHandshake dmc evs)
   \<and> (snd (Unmarshal l2) = None \<and> Type (fst (Unmarshal l2)) = ''handshake''
     \<and> ID (fst (Unmarshal l2)) = ''handshake'' \<longrightarrow>
      client_waitForHandshake dmc (Scanned l2 # evs) =
        (case parse_handshake (fst (Unmarshal l2)) of
           Inl err \<Rightarrow> Some (dmc, Some err)
         | Inr h \<Rightarrow> Some (dmc\<lparr>handshake := Some h\<rparr>, None)))
   \<and> (snd (Unmarshal l3) = None \<and> Type (fst (Unmarshal l3)) = ''handshake'' \<longrightarrow>
      server_waitForHandshake client (Scanned l3 # evs) =
        (case parse_handshake (fst (Unmarshal l3)) of
           Inl err \<Rightarrow> Some (client, Some err)
         | Inr h \<Rightarrow> Some (client\<lparr>handshake := Some h\<rparr>, None)))
   \<and> (write_error (ph_conn ph) = None \<longrightarrow>
      written (ph_conn (fst (SendHandshake ph managerID))) =
        written (ph_conn ph) @
          [marshal_Message (handshake_message (registry (driverManager ph)) managerID)]
      \<and> snd (SendHandshake ph managerID) = None)
   \<and> ID (handshake_message reg managerID) = ''handshake''
   \<and> Type (handshake_message reg managerID) = ''handshake''
   \<and> Unmarshal (Doc (marshal_Message (handshake_message reg managerID))) =
       (handshake_message reg managerID, None)
   \<and> client_waitForHandshake dmc
       (Scanned (Doc (marshal_Message (handshake_message reg managerID))) # evs) =
       Some (dmc\<lparr>handshake := Some \<lparr>DriverCount = GetDriverCount reg,
          Drivers = Some (map (\<lambda>(name, driver). (name, driver_entry True driver))
                            (ListDrivers reg))\<rparr>\<rparr>, None)
   \<and> server_waitForHandshake client
       (Scanned (Doc (marshal_Message (handshake_message reg managerID))) # evs) =
       Some (client\<lparr>handshake := Some \<lparr>DriverCount = GetDriverCount reg,
          Drivers = Some (map (\<lambda>(name, driver). (name, driver_entry True driver))
                            (ListDrivers reg))\<rparr>\<rparr>, None)"
proof (intro conjI impI)
  assume "snd (Unmarshal l) = None
     \<and> \<not> (Type (fst (Unmarshal l)) = ''handshake'' \<and> ID (fst (Unmarshal l)) = ''handshake'')"
  then show "client_waitForHandshake dmc (Scanned l # evs) = client_waitForHandshake dmc evs"
    using client_skips by blast
next
  assume "snd (Unmarshal l2) = None \<and> Type (fst (Unmarshal l2)) = ''handshake''
     \<and> ID (fst (Unmarshal l2)) = ''handshake''"
  then show "client_waitForHandshake dmc (Scanned l2 # evs) =
        (case parse_handshake (fst (Unmarshal l2)) of
           Inl err \<Rightarrow> Some (dmc, Some err)
         | Inr h \<Rightarrow> Some (dmc\<lparr>handshake := Some h\<rparr>, None))"
    using client_takes by blast
next
  assume "snd (Unmarshal l3) = None \<and> Type (fst (Unmarshal l3)) = ''handshake''"
  then show "server_waitForHandshake client (Scanned l3 # evs) =
        (case parse_handshake (fst (Unmarshal l3)) of
           Inl err \<Rightarrow> Some (client, Some err)
         | Inr h \<Rightarrow> Some (client\<lparr>handshake := Some h\<rparr>, None))"
    using server_takes by blast
next
  assume a: "write_error (ph_conn ph) = None"
  then show "written (ph_conn (fst (SendHandshake ph managerID))) =
        written (ph_conn ph) @
          [marshal_Message (handshake_message (registry (driverManager ph)) managerID)]"
    by (simp add: SendHandshake_message sendMessage_healthy)
  from a show "snd (SendHandshake ph managerID) = None"
    by (simp add: SendHandshake_message sendMessage_healthy)
next
  show "ID (handshake_message reg managerID) = ''handshake''"
    by (simp add: handshake_message_def)
  show "Type (handshake_message reg managerID) = ''handshake''"
    by (simp add: handshake_message_def)
  show "Unmarshal (Doc (marshal_Message (handshake_message reg managerID))) =
       (handshake_message reg managerID, None)"
    by (rule Unmarshal_handshake_message)
  have t: "Type (handshake_message reg managerID) = ''handshake''"
    "ID (handshake_message reg managerID) = ''handshake''"
    by (simp_all add: handshake_message_def)
  show "client_waitForHandshake dmc
       (Scanned (Doc (marshal_Message (handshake_message reg managerID))) # evs) =
       Some (dmc\<lparr>handshake := Some \<lparr>DriverCount = GetDriverCount reg,
          Drivers = Some (map (\<lambda>(name, driver). (name, driver_entry True driver))
                            (ListDrivers reg))\<rparr>\<rparr>, None)"
    by (simp add: client_takes Unmarshal_handshake_message t parse_handshake_message del: client_waitForHandshake.simps)
  show "server_waitForHandshake client
       (Scanned (Doc (marshal_Message (handshake_message reg managerID))) # evs) =
       Some (client\<lparr>handshake := Some \<lparr>DriverCount = GetDriverCount reg,
          Drivers = Some (map (\<lambda>(name, driver). (name, driver_entry True driver))
                            (ListDrivers reg))\<rparr>\<rparr>, None)"
    by (simp add: server_takes Unmarshal_handshake_message t parse_handshake_message del: server_waitForHandshake.simps)
qed

lemma Unmarshal_odd_handshake:
  "Unmarshal ex_odd_handshake =
     (\<lparr>ID = ''hs-1'', Type = ''handshake'', Method = [], Params = None, Result = None,
       Error = None\<rparr>, None)"
  by (simp add: ex_odd_handshake_def Unmarshal_def unmarshal_Message_def member_id member_type
      zero_Message_def)

theorem handshake_acceptance_witness:
  "client_waitForHandshake ex_client [Scanned ex_odd_handshake, TimerFired] =
     Some (ex_client, Some HandshakeTimeout)
   \<and> server_waitForHandshake ex_connection [Scanned ex_odd_handshake, TimerFired] =
     Some (ex_connection\<lparr>handshake := Some zero_HandshakeInfo\<rparr>, None)
   \<and> client_waitForHandshake ex_client
       [Scanned (Doc (marshal_Message (handshake_message ex_registry ''dm-7''))), TimerFired] =
     Some (ex_client\<lparr>handshake := Some \<lparr>DriverCount = 2,
        Drivers = Some (map (\<lambda>(name, driver). (name, driver_entry True driver))
                          (ListDrivers ex_registry))\<rparr>\<rparr>, None)
   \<and> written (ph_conn (fst (SendHandshake ex_handler ''dm-7''))) =
       [marshal_Message (handshake_message ex_registry ''dm-7'')]"
proof -
  have p: "parse_handshake \<lparr>ID = ''hs-1'', Type = ''handshake'', Method = [], Params = None,
       Result = None, Error = None\<rparr> = Inr zero_HandshakeInfo"
    by (simp add: parse_handshake_def unmarshal_HandshakeInfo_def)
  have c: "GetDriverCount ex_registry = 2"
    by (simp add: GetDriverCount_def ex_registry_def clearjunk.simps AList.delete_eq)
  have r: "registry (driverManager ex_handler) = ex_registry"
    by (simp add: ex_handler_def ex_manager_def)
  note t = handshake_acceptance [of ex_odd_handshake ex_client "[TimerFired]"
      "Doc (marshal_Message (handshake_message ex_registry ''dm-7''))" ex_odd_handshake
      ex_connection ex_handler "''dm-7''" ex_registry]
  from t p c r show ?thesis
    by (simp add: Unmarshal_odd_handshake ex_handler_fields del: client_waitForHandshake.simps
        server_waitForHandshake.simps)
       simp
qed

section \<open>The registry of the listener\<close>

lemma handshake_received_Cons:
  "handshake_received evs h \<Longrightarrow> handshake_received (ev # evs) h"
  by (auto simp add: handshake_received_def)

lemma server_wait_success:
  "server_waitForHandshake client evs = Some (client1, None) \<Longrightarrow>
   \<exists>h. client1 = client\<lparr>handshake := Some h\<rparr> \<and> handshake_received evs h"
proof (induction evs)
  case Nil
  then show ?case by simp
next
  case (Cons ev evs)
  show ?case
  proof (cases ev)
    case CtxDone
    with Cons show ?thesis by (auto intro: handshake_received_Cons)
  next
    case TimerFired
    with Cons.prems show ?thesis by simp
  next
    case (ScanStopped x)
    with Cons show ?thesis by (cases x) (auto intro: handshake_received_Cons)
  next
    case (Scanned l)
    show ?thesis
    proof (cases "l \<noteq> Blank \<and> snd (Unmarshal l) = None \<and> Type (fst (Unmarshal l)) = ''handshake''")
      case True
      with Cons.prems Scanned obtain h where h: "parse_handshake (fst (Unmarshal l)) = Inr h"
        "client1 = client\<lparr>handshake := Some h\<rparr>"
        by (auto simp add: Let_def split: sum.splits)
      with Scanned True have "handshake_received (ev # evs) h"
        by (simp add: handshake_received_def)
      with h show ?thesis by blast
    next
      case False
      with Scanned have "server_waitForHandshake client (ev # evs) = server_waitForHandshake client evs"
        by (auto simp add: Let_def)
      with Cons show ?thesis by (auto intro: handshake_received_Cons)
    qed
  qed
qed

lemma processMessages_handshake: "handshake (processMessages dmc ls) = handshake dmc"
proof (induction dmc ls rule: processMessages.induct)
  case (2 dmc cancelled l rest)
  have "handshake (process_line dmc l) = handshake dmc"
    by (simp add: process_line_def deliver_def Let_def split: option.splits)
  with 2 show ?case by simp
qed simp

lemma sendRequest_handshake: "handshake (fst (sendRequest dmc now method params w)) = handshake dmc"
  by (simp add: sendRequest_def sendRequest_issue_def sendRequest_await_def unregister_def Let_def
      split: option.splits)

lemma handleConnection_cases:
  "handleConnection dms now c evs = dms
   \<or> (\<exists>h. handshake_received evs h
        \<and> handleConnection dms now c evs =
            dms\<lparr>clients := (clients dms)(conn_ID (new_connection now c) \<mapsto>
               (new_connection now c)\<lparr>handshake := Some h\<rparr>)\<rparr>)"
proof (cases "server_waitForHandshake (new_connection now c) evs")
  case None
  then show ?thesis by (simp add: handleConnection_def)
next
  case (Some r)
  obtain client1 e where r: "r = (client1, e)" by (cases r)
  show ?thesis
  proof (cases e)
    case None
    with Some r server_wait_success obtain h where
      "client1 = (new_connection now c)\<lparr>handshake := Some h\<rparr>" "handshake_received evs h"
      by blast
    with Some r None show ?thesis by (auto simp add: handleConnection_def)
  next
    case (Some err)
    with \<open>server_waitForHandshake _ evs = Some r\<close> r show ?thesis by (simp add: handleConnection_def)
  qed
qed

lemma reachable_all_shaken: "reachable dms \<Longrightarrow> all_shaken dms"
proof (induction rule: reachable.induct)
  case start
  show ?case by (simp add: all_shaken_def NewDriverManagerServer_def)
next
  case (accept dms now c evs)
  from handleConnection_cases [of dms now c evs] accept.IH show ?case
    by (auto simp add: all_shaken_def split: if_splits)
next
  case (read dms k client ls)
  then show ?case by (auto simp add: all_shaken_def processMessages_handshake)
next
  case (request dms k client now meth ps w)
  then show ?case by (auto simp add: all_shaken_def sendRequest_handshake)
next
  case (stop dms)
  then show ?case by (auto simp add: all_shaken_def Stop_def Close_def)
qed

lemma show_int_small:
  "show_int 1 = ''1''" "show_int 2 = ''2''" "show_int 3 = ''3''" "show_int 5 = ''5''"
  by code_simp+

lemma handshake_message_fields:
  "ID (handshake_message reg managerID) = ''handshake''"
  "Type (handshake_message reg managerID) = ''handshake''"
  by (simp_all add: handshake_message_def)

lemma handleConnection_ex:
  "handleConnection dms now \<lparr>written = [], write_error = None\<rparr> ex_hs_events =
     dms\<lparr>clients := (clients dms)(''dm-'' @ show_int now \<mapsto> ex_registered (''dm-'' @ show_int now))\<rparr>"
proof -
  have "server_waitForHandshake client ex_hs_events =
      Some (client\<lparr>handshake := Some ex_info_received\<rparr>, None)" for client
    unfolding ex_hs_events_def ex_info_received_def
    by (simp add: server_takes Unmarshal_handshake_message handshake_message_fields
        parse_handshake_message del: server_waitForHandshake.simps)
  then show ?thesis
    by (simp add: handleConnection_def new_connection_def ex_registered_def)
qed

lemma ex_server_clients:
  "clients ex_server = [''dm-1'' \<mapsto> ex_registered ''dm-1'', ''dm-2'' \<mapsto> ex_registered ''dm-2'']"
  by (simp add: ex_server_def handleConnection_ex show_int_small NewDriverManagerServer_def)

text \<open>
  In every reachable state of the listener every registered connection has a handshake:
  \<^verbatim>\<open>handleConnection\<close> changes the registry only by adding the connection, and only
  when a handshake message was among the lines it received and was parsed.
\<close>

lemma registered_sessions_have_handshake:
  "reachable dms \<Longrightarrow> clients dms k = Some client \<Longrightarrow> handshake client \<noteq> None"
  using reachable_all_shaken [of dms] by (auto simp add: all_shaken_def)

lemma Unmarshal_ping:
  "Unmarshal ex_ping =
     (\<lparr>ID = ''p1'', Type = ''ping'', Method = [], Params = None, Result = None, Error = None\<rparr>,
      None)"
  by (simp add: ex_ping_def Unmarshal_def unmarshal_Message_def member_id member_type
      zero_Message_def)

lemma ex_ping_not_Blank: "ex_ping \<noteq> Blank"
  by (simp add: ex_ping_def)

text \<open>
  The first line of a peer is scanned however late it arrives: the turn that reads it
  began before the timer fired and blocks until the line is there.
\<close>

lemma first_line_scanned_however_late:
  "turns_by_clock 0 ((arrival, l) # later) = Scanned l # turns_by_clock arrival later"
  by (simp add: handshake_timeout_def)

lemma turns_late_handshake:
  "turns_by_clock 0 ex_late_handshake
     = [Scanned (Doc (marshal_Message (handshake_message ex_registry ''dm-7''))), TimerFired]"
  by (simp add: ex_late_handshake_def handshake_timeout_def)

lemma turns_late_after_ping:
  "turns_by_clock 0 ex_late_after_ping = [Scanned ex_ping, TimerFired]"
  by (simp add: ex_late_after_ping_def handshake_timeout_def)

lemma server_wait_ex:
  "server_waitForHandshake client
     (Scanned (Doc (marshal_Message (handshake_message ex_registry ''dm-7''))) # evs) =
      Some (client\<lparr>handshake := Some ex_info_received\<rparr>, None)"
  unfolding ex_info_received_def
  by (simp add: server_takes Unmarshal_handshake_message handshake_message_fields
      parse_handshake_message del: server_waitForHandshake.simps)

text \<open>
  C8. The claim fails in its last part: a session that does not complete its handshake
  within the timeout can still appear in the registry. A peer stays silent for 40 s and
  then sends its handshake. The wait looked at its 30 s timer once, at the top of its
  first turn, and has been blocked in \<^verbatim>\<open>Scan\<close> since; it reads the late handshake,
  accepts it, and \<^verbatim>\<open>handleConnection\<close> registers the session. The timer is only seen
  between two lines: had a ping arrived at 40 s and the handshake a second later, the
  turn after the ping would have found the timer fired and the session would not have
  been registered.
\<close>

theorem late_handshake_is_registered:
  "ex_late_handshake = [(40000, Doc (marshal_Message (handshake_message ex_registry ''dm-7'')))]
   \<and> handshake_timeout < 40000
   \<and> turns_by_clock 0 ex_late_handshake
       = [Scanned (Doc (marshal_Message (handshake_message ex_registry ''dm-7''))), TimerFired]
   \<and> handleConnection NewDriverManagerServer 1 \<lparr>written = [], write_error = None\<rparr>
        (turns_by_clock 0 ex_late_handshake)
       = \<lparr>clients = [''dm-1'' \<mapsto> ex_registered ''dm-1'']\<rparr>
   \<and> turns_by_clock 0 ex_late_after_ping = [Scanned ex_ping, TimerFired]
   \<and> handleConnection NewDriverManagerServer 1 \<lparr>written = [], write_error = None\<rparr>
        (turns_by_clock 0 ex_late_after_ping)
       = NewDriverManagerServer"
proof (intro conjI)
  show "ex_late_handshake = [(40000, Doc (marshal_Message (handshake_message ex_registry ''dm-7'')))]"
    by (simp add: ex_late_handshake_def)
  show "handshake_timeout < 40000"
    by (simp add: handshake_timeout_def)
  show "turns_by_clock 0 ex_late_handshake
       = [Scanned (Doc (marshal_Message (handshake_message ex_registry ''dm-7''))), TimerFired]"
    by (rule turns_late_handshake)
  show "handleConnection NewDriverManagerServer 1 \<lparr>written = [], write_error = None\<rparr>
        (turns_by_clock 0 ex_late_handshake)
       = \<lparr>clients = [''dm-1'' \<mapsto> ex_registered ''dm-1'']\<rparr>"
    by (simp add: turns_late_handshake handleConnection_def server_wait_ex new_connection_def
        ex_registered_def show_int_small NewDriverManagerServer_def
        del: server_waitForHandshake.simps)
  show "turns_by_clock 0 ex_late_after_ping = [Scanned ex_ping, TimerFired]"
    by (rule turns_late_after_ping)
  show "handleConnection NewDriverManagerServer 1 \<lparr>written = [], write_error = None\<rparr>
        (turns_by_clock 0 ex_late_after_ping)
       = NewDriverManagerServer"
    by (simp add: turns_late_after_ping handleConnection_def Unmarshal_ping ex_ping_not_Blank)
qed

section \<open>Requests and the fan-out over sessions\<close>

lemma sendRequest_not_connected:
  "\<not> connected dmc \<Longrightarrow> sendRequest dmc now method params w = (dmc, Inl NotConnected)"
  by (simp add: sendRequest_def sendRequest_issue_def IsConnected_def)

lemma sendRequest_responses:
  "connected dmc \<Longrightarrow>
   responses (fst (sendRequest dmc now method params w)) =
     (responses dmc)(request_id method now := None)"
  by (simp add: sendRequest_def sendRequest_issue_def sendRequest_await_def IsConnected_def
      unregister_def Let_def split: option.splits)

lemma sendRequest_write_failure:
  "connected dmc \<Longrightarrow> write_error (conn dmc) = Some why \<Longrightarrow>
   snd (sendRequest dmc now method params w) = Inl (SendFailed (WriteFailed why))
   \<and> conn (fst (sendRequest dmc now method params w)) = conn dmc"
  by (simp add: sendRequest_def sendRequest_issue_def IsConnected_def Write_def unregister_def
      Let_def)

lemma sendRequest_healthy:
  "connected dmc \<Longrightarrow> write_error (conn dmc) = None \<Longrightarrow>
   snd (sendRequest dmc now method params w) =
     (case w of
        Cancelled \<Rightarrow> Inl ContextCanceled
      | TimedOut \<Rightarrow> Inl RequestTimeout
      | Response response \<Rightarrow>
          (case Error response of
             Some e \<Rightarrow> Inl (ManagerError (Code e) (Message e))
           | None \<Rightarrow> Inr (Result response)))
   \<and> written (conn (fst (sendRequest dmc now method params w))) =
       written (conn dmc) @
         [marshal_Message \<lparr>ID = request_id method now, Type = ''request'', Method = method,
            Params = params, Result = None, Error = None\<rparr>]"
  by (simp add: sendRequest_def sendRequest_issue_def sendRequest_await_def IsConnected_def
      Write_def unregister_def Let_def)

lemma Execute_loop_first_success:
  "snd (Server_ExecuteDriverOperation_loop env i operation ps dms managers) =
     (case first_success (map (\<lambda>(k, manager).
              snd (sendRequest manager (fst (env k)) ''execute_operation''
                     (execute_params i operation ps) (snd (env k)))) managers) of
        Some res \<Rightarrow> Inr res
      | None \<Rightarrow> Inl ExecuteFailedOnAnyManager)"
proof (induction managers arbitrary: dms)
  case Nil
  show ?case by simp
next
  case (Cons a managers)
  obtain k manager where a: "a = (k, manager)" by (cases a)
  show ?case
    by (cases "snd (sendRequest manager (fst (env k)) ''execute_operation''
                     (execute_params i operation ps) (snd (env k)))")
       (simp_all add: a Let_def Cons.IH)
qed

lemma Create_loop_first_success:
  "snd (Server_CreateDriverInstance_loop env i driverName config dms managers) =
     (case first_success (map (\<lambda>(k, manager).
              snd (sendRequest manager (fst (env k)) ''create_instance''
                     (create_params i driverName config) (snd (env k)))) managers) of
        Some res \<Rightarrow> None
      | None \<Rightarrow> Some CreateFailedOnAnyManager)"
proof (induction managers arbitrary: dms)
  case Nil
  show ?case by simp
next
  case (Cons a managers)
  obtain k manager where a: "a = (k, manager)" by (cases a)
  show ?case
    by (cases "snd (sendRequest manager (fst (env k)) ''create_instance''
                     (create_params i driverName config) (snd (env k)))")
       (simp_all add: a Let_def Cons.IH)
qed

lemma Pool_loop_first_success:
  "snd (Pool_GetDriverInfo_loop env driverName n cs) =
     (case first_success (map (\<lambda>(j, client).
              snd (Client_GetDriverInfo client (fst (env j)) driverName (snd (env j))))
            (filter (\<lambda>(j, client). IsConnected client) (enumerate n cs))) of
        Some info \<Rightarrow> Inr info
      | None \<Rightarrow> Inl (NotFoundInAnyManager driverName))"
proof (induction cs arbitrary: n)
  case Nil
  show ?case by simp
next
  case (Cons client cs)
  show ?case
  proof (cases "IsConnected client")
    case False
    then show ?thesis by (simp add: Let_def Cons.IH)
  next
    case True
    then show ?thesis
      by (cases "snd (Client_GetDriverInfo client (fst (env n)) driverName (snd (env n)))")
         (simp_all add: Let_def Cons.IH)
  qed
qed

lemma GetConnectedManagers_range:
  assumes "is_range_of order dms"
  shows "distinct (map fst (GetConnectedManagers dms order))"
    and "set (GetConnectedManagers dms order) =
           {(k, client). clients dms k = Some client \<and> connected client}"
proof -
  have d: "distinct ks \<Longrightarrow> distinct (map fst (GetConnectedManagers dms ks))" for ks
  proof (induction ks)
    case Nil
    show ?case by (simp add: GetConnectedManagers_def)
  next
    case (Cons k ks)
    have "fst ` set (GetConnectedManagers dms ks) \<subseteq> set ks"
      by (auto simp add: GetConnectedManagers_def split: option.splits if_splits)
    with Cons show ?case
      by (auto simp add: GetConnectedManagers_def split: option.splits)
  qed
  from assms show "distinct (map fst (GetConnectedManagers dms order))"
    by (simp add: d is_range_of_def)
  have "set (GetConnectedManagers dms ks) =
      {(k, client). k \<in> set ks \<and> clients dms k = Some client \<and> connected client}" for ks
    by (induction ks) (auto simp add: GetConnectedManagers_def IsConnected_def split: option.splits if_splits)
  with assms show "set (GetConnectedManagers dms order) =
           {(k, client). clients dms k = Some client \<and> connected client}"
    by (auto simp add: is_range_of_def)
qed

lemma client_wait_success:
  "client_waitForHandshake dmc evs = Some (dmc1, None) \<Longrightarrow>
   \<exists>h. dmc1 = dmc\<lparr>handshake := Some h\<rparr>"
proof (induction evs)
  case Nil
  then show ?case by simp
next
  case (Cons ev evs)
  show ?case
  proof (cases ev)
    case CtxDone
    with Cons.prems show ?thesis by simp
  next
    case TimerFired
    with Cons.prems show ?thesis by simp
  next
    case (ScanStopped x)
    with Cons show ?thesis by (cases x) auto
  next
    case (Scanned l)
    show ?thesis
    proof (cases "l \<noteq> Blank \<and> snd (Unmarshal l) = None \<and> Type (fst (Unmarshal l)) = ''handshake''
        \<and> ID (fst (Unmarshal l)) = ''handshake''")
      case True
      with Cons.prems Scanned show ?thesis
        by (auto simp add: Let_def split: sum.splits)
    next
      case False
      with Scanned have "client_waitForHandshake dmc (ev # evs) = client_waitForHandshake dmc evs"
        by (auto simp add: Let_def)
      with Cons show ?thesis by auto
    qed
  qed
qed

lemma AddDriverManager_appends:
  assumes "AddDriverManager dmp addr dialled evs = Some (dmp1, None)"
  shows "\<exists>client. dmp1 = dmp @ [client] \<and> address client = addr \<and> connected client
           \<and> handshake client \<noteq> None"
proof -
  from assms obtain client where c: "Connect (NewDriverManagerClient addr) dialled evs = Some (client, None)"
    and d: "dmp1 = dmp @ [client]"
    by (auto simp add: AddDriverManager_def split: option.splits prod.splits)
  from c obtain cn where "client_waitForHandshake
      ((NewDriverManagerClient addr)\<lparr>conn := cn, connected := True\<rparr>) evs = Some (client, None)"
    by (auto simp add: Connect_def split: sum.splits option.splits prod.splits)
  with client_wait_success obtain h where
    "client = (NewDriverManagerClient addr)\<lparr>conn := cn, connected := True\<rparr>\<lparr>handshake := Some h\<rparr>"
    by blast
  with d show ?thesis by (simp add: NewDriverManagerClient_def)
qed

text \<open>
  C3 (as amended). \<^verbatim>\<open>ExecuteDriverOperation\<close> and \<^verbatim>\<open>CreateDriverInstance\<close> of the
  listener try each connected session once, in the order the range over the registry map
  yields them (which Go leaves unspecified), and \<^verbatim>\<open>GetDriverInfo\<close> of the pool tries each
  connected client in the order of the slice, which is the order \<^verbatim>\<open>AddDriverManager\<close>
  appended them in. Each returns the first success and, when every session fails or none
  is connected, one failure (creation tells "no connected driver managers" apart from
  "failed on any manager"). With two connected clients of which the first misses driver
  X and the second has it, \<^verbatim>\<open>GetDriverInfo\<close> of the pool returns the second's answer.
\<close>

theorem fan_out_first_success:
  "snd (Server_ExecuteDriverOperation dms order env i operation ps) =
     (case first_success (map (\<lambda>(k, manager).
              snd (sendRequest manager (fst (env k)) ''execute_operation''
                     (execute_params i operation ps) (snd (env k))))
            (GetConnectedManagers dms order)) of
        Some res \<Rightarrow> Inr res
      | None \<Rightarrow> Inl ExecuteFailedOnAnyManager)
   \<and> snd (Server_CreateDriverInstance dms order env i driverName config) =
     (if GetConnectedManagers dms order = [] then Some NoConnectedManagers
      else (case first_success (map (\<lambda>(k, manager).
              snd (sendRequest manager (fst (env k)) ''create_instance''
                     (create_params i driverName config) (snd (env k))))
            (GetConnectedManagers dms order)) of
        Some res \<Rightarrow> None
      | None \<Rightarrow> Some CreateFailedOnAnyManager))
   \<and> snd (Pool_GetDriverInfo dmp penv driverName) =
     (case first_success (map (\<lambda>(j, client).
              snd (Client_GetDriverInfo client (fst (penv j)) driverName (snd (penv j))))
            (filter (\<lambda>(j, client). IsConnected client) (enumerate 0 dmp))) of
        Some info \<Rightarrow> Inr info
      | None \<Rightarrow> Inl (NotFoundInAnyManager driverName))
   \<and> (is_range_of order dms \<longrightarrow>
        distinct (map fst (GetConnectedManagers dms order))
        \<and> set (GetConnectedManagers dms order) =
            {(k, client). clients dms k = Some client \<and> connected client})
   \<and> (AddDriverManager dmp addr dialled evs = Some (dmp1, None) \<longrightarrow>
        (\<exists>client. dmp1 = dmp @ [client] \<and> address client = addr \<and> connected client
           \<and> handshake client \<noteq> None))
   \<and> (connected c1 \<and> connected c2
        \<and> isl (snd (Client_GetDriverInfo c1 (fst (penv 0)) driverName (snd (penv 0))))
        \<and> snd (Client_GetDriverInfo c2 (fst (penv 1)) driverName (snd (penv 1))) = Inr info \<longrightarrow>
        snd (Pool_GetDriverInfo [c1, c2] penv driverName) = Inr info)"
proof (intro conjI impI)
  show "snd (Server_ExecuteDriverOperation dms order env i operation ps) =
     (case first_success (map (\<lambda>(k, manager).
              snd (sendRequest manager (fst (env k)) ''execute_operation''
                     (execute_params i operation ps) (snd (env k))))
            (GetConnectedManagers dms order)) of
        Some res \<Rightarrow> Inr res
      | None \<Rightarrow> Inl ExecuteFailedOnAnyManager)"
    by (simp add: Server_ExecuteDriverOperation_def Execute_loop_first_success)
  show "snd (Server_CreateDriverInstance dms order env i driverName config) =
     (if GetConnectedManagers dms order = [] then Some NoConnectedManagers
      else (case first_success (map (\<lambda>(k, manager).
              snd (sendRequest manager (fst (env k)) ''create_instance''
                     (create_params i driverName config) (snd (env k))))
            (GetConnectedManagers dms order)) of
        Some res \<Rightarrow> None
      | None \<Rightarrow> Some CreateFailedOnAnyManager))"
    by (simp add: Server_CreateDriverInstance_def Create_loop_first_success Let_def)
  show "snd (Pool_GetDriverInfo dmp penv driverName) =
     (case first_success (map (\<lambda>(j, client).
              snd (Client_GetDriverInfo client (fst (penv j)) driverName (snd (penv j))))
            (filter (\<lambda>(j, client). IsConnected client) (enumerate 0 dmp))) of
        Some info \<Rightarrow> Inr info
      | None \<Rightarrow> Inl (NotFoundInAnyManager driverName))"
    by (simp add: Pool_GetDriverInfo_def Pool_loop_first_success)
next
  assume a: "is_range_of order dms"
  then show "distinct (map fst (GetConnectedManagers dms order))"
    by (rule GetConnectedManagers_range)
  from a show "set (GetConnectedManagers dms order) =
            {(k, client). clients dms k = Some client \<and> connected client}"
    by (rule GetConnectedManagers_range)
next
  assume "AddDriverManager dmp addr dialled evs = Some (dmp1, None)"
  then show "\<exists>client. dmp1 = dmp @ [client] \<and> address client = addr \<and> connected client
           \<and> handshake client \<noteq> None"
    by (rule AddDriverManager_appends)
next
  assume "connected c1 \<and> connected c2
        \<and> isl (snd (Client_GetDriverInfo c1 (fst (penv 0)) driverName (snd (penv 0))))
        \<and> snd (Client_GetDriverInfo c2 (fst (penv 1)) driverName (snd (penv 1))) = Inr info"
  then show "snd (Pool_GetDriverInfo [c1, c2] penv driverName) = Inr info"
    by (cases "snd (Client_GetDriverInfo c1 (fst (penv 0)) driverName (snd (penv 0)))")
       (simp_all add: Pool_GetDriverInfo_def IsConnected_def Let_def)
qed

lemma ex_registered_fields:
  "connected (ex_registered k)" "write_error (conn (ex_registered k)) = None"
  by (simp_all add: ex_registered_def)

lemma ex_order_range:
  "is_range_of [''dm-2'', ''dm-1''] ex_server" "is_range_of [''dm-1'', ''dm-2''] ex_server"
  by (auto simp add: is_range_of_def ex_server_clients)

lemma ex_managers:
  "GetConnectedManagers ex_server [''dm-2'', ''dm-1''] =
     [(''dm-2'', ex_registered ''dm-2''), (''dm-1'', ex_registered ''dm-1'')]"
  "GetConnectedManagers ex_server [''dm-1'', ''dm-2''] =
     [(''dm-1'', ex_registered ''dm-1''), (''dm-2'', ex_registered ''dm-2'')]"
  by (simp_all add: GetConnectedManagers_def ex_server_clients IsConnected_def ex_registered_fields)

lemma ex_AddDriverManager:
  "AddDriverManager [ex_client2] ''127.0.0.1:5246'' (Inr \<lparr>written = [], write_error = None\<rparr>)
     ex_hs_events = Some ([ex_client2, ex_added], None)"
  by (simp add: AddDriverManager_def Connect_def ex_hs_events_def client_takes
      Unmarshal_handshake_message handshake_message_fields parse_handshake_message
      ex_added_def ex_info_received_def del: client_waitForHandshake.simps)

lemma ex_pool_attempts:
  "snd (Client_GetDriverInfo ex_client (fst (ex_pool_env 0)) ''X'' (snd (ex_pool_env 0)))
     = Inl (ManagerError 404 ''driver X not found'')"
  "snd (Client_GetDriverInfo ex_client2 (fst (ex_pool_env 1)) ''X'' (snd (ex_pool_env 1)))
     = Inr [(''name'', JStr ''X'')]"
  by (simp_all add: Client_GetDriverInfo_def Let_def sendRequest_healthy ex_client_def
      ex_client2_def NewDriverManagerClient_def ex_pool_env_def ex_refusal_def ex_reply_def)

theorem fan_out_first_success_witness:
  "distinct (map fst (GetConnectedManagers ex_server [''dm-1'', ''dm-2'']))
   \<and> set (GetConnectedManagers ex_server [''dm-1'', ''dm-2'']) =
       {(k, client). clients ex_server k = Some client \<and> connected client}
   \<and> (\<exists>client. [ex_client2, ex_added] = [ex_client2] @ [client]
         \<and> address client = ''127.0.0.1:5246'' \<and> connected client \<and> handshake client \<noteq> None)
   \<and> snd (Pool_GetDriverInfo [ex_client, ex_client2] ex_pool_env ''X'') = Inr [(''name'', JStr ''X'')]
   \<and> snd (Server_ExecuteDriverOperation ex_server [''dm-1'', ''dm-2''] ex_env ''s-1'' ''list'' None)
       = Inr (Some (JStr ''first''))"
proof -
  have c: "connected ex_client" "connected ex_client2"
    by (simp_all add: ex_client_def ex_client2_def)
  note t = fan_out_first_success [where dms = ex_server and order = "[''dm-1'', ''dm-2'']"
      and env = ex_env and i = "''s-1''" and operation = "''list''" and ps = None
      and driverName = "''X''" and dmp = "[ex_client2]" and penv = ex_pool_env
      and addr = "''127.0.0.1:5246''" and dialled = "Inr \<lparr>written = [], write_error = None\<rparr>"
      and evs = ex_hs_events and ?dmp1.0 = "[ex_client2, ex_added]" and ?c1.0 = ex_client
      and ?c2.0 = ex_client2 and info = "[(''name'', JStr ''X'')]"]
  from t ex_order_range(2) ex_AddDriverManager c ex_pool_attempts
  have "distinct (map fst (GetConnectedManagers ex_server [''dm-1'', ''dm-2'']))"
    and "set (GetConnectedManagers ex_server [''dm-1'', ''dm-2'']) =
       {(k, client). clients ex_server k = Some client \<and> connected client}"
    and "\<exists>client. [ex_client2, ex_added] = [ex_client2] @ [client]
         \<and> address client = ''127.0.0.1:5246'' \<and> connected client \<and> handshake client \<noteq> None"
    and "snd (Pool_GetDriverInfo [ex_client, ex_client2] ex_pool_env ''X'') = Inr [(''name'', JStr ''X'')]"
    by simp_all
  moreover from t have "snd (Server_ExecuteDriverOperation ex_server [''dm-1'', ''dm-2''] ex_env ''s-1'' ''list'' None)
       = Inr (Some (JStr ''first''))"
    by (simp add: ex_managers sendRequest_healthy ex_registered_fields ex_env_def ex_reply_def)
  ultimately show ?thesis by blast
qed

text \<open>
  C3 as stated fails for the listener: with two connections registered one after the
  other, the range may yield the second first, and the operation then returns the
  second's result although the first registered would have succeeded.
\<close>

theorem registration_order_counterexample:
  "ex_server =
     handleConnection
       (handleConnection NewDriverManagerServer 1 \<lparr>written = [], write_error = None\<rparr> ex_hs_events)
       2 \<lparr>written = [], write_error = None\<rparr> ex_hs_events
   \<and> clients ex_server = [''dm-1'' \<mapsto> ex_registered ''dm-1'', ''dm-2'' \<mapsto> ex_registered ''dm-2'']
   \<and> is_range_of [''dm-2'', ''dm-1''] ex_server
   \<and> snd (Server_ExecuteDriverOperation ex_server [''dm-2'', ''dm-1''] ex_env ''s-1'' ''list'' None)
       = Inr (Some (JStr ''second''))
   \<and> first_success (map (\<lambda>(k, manager).
              snd (sendRequest manager (fst (ex_env k)) ''execute_operation''
                     (execute_params ''s-1'' ''list'' None) (snd (ex_env k))))
            [(''dm-1'', ex_registered ''dm-1''), (''dm-2'', ex_registered ''dm-2'')])
       = Some (Some (JStr ''first''))"
proof -
  have "ex_server =
     handleConnection
       (handleConnection NewDriverManagerServer 1 \<lparr>written = [], write_error = None\<rparr> ex_hs_events)
       2 \<lparr>written = [], write_error = None\<rparr> ex_hs_events"
    by (simp add: ex_server_def)
  then show ?thesis
    by (simp add: ex_order_range Server_ExecuteDriverOperation_def ex_managers Let_def
        sendRequest_healthy ex_registered_fields ex_env_def ex_reply_def ex_server_clients)
qed

section \<open>Correlation IDs and the table of pending requests\<close>

text \<open>
  A call on a session that is not connected returns at once and leaves the session as it
  was (\<open>sendRequest_not_connected\<close>); on every other path the entry under the call's ID
  is gone afterwards (\<open>sendRequest_responses\<close>), so the table is as before the call
  whenever that ID was not pending already (\<open>sendRequest_restores\<close>). Two IDs of the
  same method differ exactly when the clock readings differ.
\<close>

lemma request_id_ex: "request_id ''list_drivers'' 5 = ''list_drivers-5''"
  by (simp add: request_id_def show_int_small)

lemma sendRequest_restores:
  "connected dmc \<Longrightarrow> responses dmc (request_id method now) = None \<Longrightarrow>
   responses (fst (sendRequest dmc now method params w)) = responses dmc"
  by (auto simp add: sendRequest_responses)

lemma sendRequest_issue_healthy:
  "connected dmc \<Longrightarrow> write_error (conn dmc) = None \<Longrightarrow>
   sendRequest_issue dmc now method params =
     (dmc\<lparr>responses := (responses dmc)(request_id method now \<mapsto> []),
          conn := (conn dmc)\<lparr>written := written (conn dmc) @
            [marshal_Message \<lparr>ID = request_id method now, Type = ''request'', Method = method,
               Params = params, Result = None, Error = None\<rparr>]\<rparr>\<rparr>,
      Inr (request_id method now))"
  by (simp add: sendRequest_issue_def IsConnected_def Write_def Let_def)

lemma digit_char_inj:
  "a < 10 \<Longrightarrow> b < 10 \<Longrightarrow> char_of (48 + a :: nat) = char_of (48 + b :: nat) \<Longrightarrow> a = b"
  by (simp add: char_of_eq_iff take_bit_eq_mod)

lemma digits_not_Nil: "digits n \<noteq> []"
  by (subst digits.simps) simp

lemma digits_inj: "digits m = digits n \<Longrightarrow> m = n"
proof (induction m arbitrary: n rule: digits.induct)
  case (1 m)
  show ?case
  proof (cases "m < 10")
    case True
    with "1.prems" have s: "digits n = [char_of (48 + m)]"
      by (subst (asm) digits.simps) simp
    have "n < 10"
    proof (rule ccontr)
      assume "\<not> n < 10"
      then have "digits n = digits (n div 10) @ [char_of (48 + n mod 10)]"
        by (subst digits.simps) simp
      with s digits_not_Nil [of "n div 10"] show False by simp
    qed
    with s have "char_of (48 + n) = char_of (48 + m)"
      by (subst (asm) digits.simps) simp
    with True \<open>n < 10\<close> show ?thesis using digit_char_inj by metis
  next
    case False
    then have m: "digits m = digits (m div 10) @ [char_of (48 + m mod 10)]"
      by (subst digits.simps) simp
    have "\<not> n < 10"
    proof
      assume "n < 10"
      then have "digits n = [char_of (48 + n)]"
        by (subst digits.simps) simp
      with m "1.prems" digits_not_Nil [of "m div 10"] show False by simp
    qed
    then have n: "digits n = digits (n div 10) @ [char_of (48 + n mod 10)]"
      by (subst digits.simps) simp
    from m n "1.prems" have a: "digits (m div 10) = digits (n div 10)"
      and b: "char_of (48 + m mod 10) = char_of (48 + n mod 10)"
      by simp_all
    from a False "1.IH" have "m div 10 = n div 10" by simp
    moreover from b have "m mod 10 = n mod 10"
      using digit_char_inj [of "m mod 10" "n mod 10"] by simp
    ultimately show ?thesis by (metis div_mult_mod_eq)
  qed
qed

lemma digits_no_minus: "hd (digits n) \<noteq> CHR ''-''"
proof (induction n rule: digits.induct)
  case (1 n)
  show ?case
  proof (cases "n < 10")
    case True
    then have "digits n = [char_of (48 + n)]" by (subst digits.simps) simp
    moreover have "char_of (48 + n) \<noteq> CHR ''-''"
      using True by (simp add: char_of_eq_iff take_bit_eq_mod flip: of_char_eq_iff)
    ultimately show ?thesis by simp
  next
    case False
    then have "digits n = digits (n div 10) @ [char_of (48 + n mod 10)]"
      by (subst digits.simps) simp
    with False "1.IH" digits_not_Nil [of "n div 10"] show ?thesis by simp
  qed
qed

lemma show_int_inj: "show_int a = show_int b \<Longrightarrow> a = b"
proof (cases "a < 0"; cases "b < 0")
  assume "a < 0" "b < 0" "show_int a = show_int b"
  then have "nat (- a) = nat (- b)" by (simp add: show_int_def digits_inj)
  with \<open>a < 0\<close> \<open>b < 0\<close> show ?thesis by simp
next
  assume "a < 0" "\<not> b < 0" "show_int a = show_int b"
  then have "digits (nat b) = CHR ''-'' # digits (nat (- a))" by (simp add: show_int_def)
  with digits_no_minus [of "nat b"] show ?thesis by simp
next
  assume "\<not> a < 0" "b < 0" "show_int a = show_int b"
  then have "digits (nat a) = CHR ''-'' # digits (nat (- b))" by (simp add: show_int_def)
  with digits_no_minus [of "nat a"] show ?thesis by simp
next
  assume "\<not> a < 0" "\<not> b < 0" "show_int a = show_int b"
  then have "nat a = nat b" by (simp add: show_int_def digits_inj)
  with \<open>\<not> a < 0\<close> \<open>\<not> b < 0\<close> show ?thesis by simp
qed

lemma request_id_distinct_readings:
  "now \<noteq> now' \<Longrightarrow> request_id method now \<noteq> request_id method now'"
  by (auto simp add: request_id_def dest: show_int_inj)

text \<open>
  C2 on the code: two callers that issue \<^verbatim>\<open>list_drivers\<close> on one session and read the
  same clock value 5 both get the ID \<^verbatim>\<open>list_drivers-5\<close> while both are pending. The
  table then holds one channel for the two requests, and when one caller leaves, the
  other's channel is gone.
\<close>

theorem same_clock_reading_same_request_id:
  "snd (sendRequest_issue ex_client 5 ''list_drivers'' None) = Inr ''list_drivers-5''
   \<and> snd (sendRequest_issue (fst (sendRequest_issue ex_client 5 ''list_drivers'' None)) 5
            ''list_drivers'' None) = Inr ''list_drivers-5''
   \<and> dom (responses (fst (sendRequest_issue
            (fst (sendRequest_issue ex_client 5 ''list_drivers'' None)) 5 ''list_drivers'' None)))
       = {''list_drivers-5''}
   \<and> responses (fst (sendRequest_await (fst (sendRequest_issue
            (fst (sendRequest_issue ex_client 5 ''list_drivers'' None)) 5 ''list_drivers'' None))
          ''list_drivers-5'' TimedOut)) ''list_drivers-5'' = None"
proof -
  have c: "connected ex_client" "write_error (conn ex_client) = None" "responses ex_client = Map.empty"
    by (simp_all add: ex_client_def NewDriverManagerClient_def)
  show ?thesis
    by (simp add: sendRequest_issue_healthy c request_id_ex sendRequest_await_def unregister_def)
qed

text \<open>
  C6 on the code: a call whose ID is already pending (the collision above) takes the
  other caller's entry with it, so the table is one entry smaller than before the call.
\<close>

theorem sendRequest_drops_pending_awaiter:
  "connected ex_pending
   \<and> card (dom (responses ex_pending)) = 1
   \<and> snd (sendRequest ex_pending 5 ''list_drivers'' None TimedOut) = Inl RequestTimeout
   \<and> card (dom (responses (fst (sendRequest ex_pending 5 ''list_drivers'' None TimedOut)))) = 0"
proof -
  have c: "connected ex_pending" "write_error (conn ex_pending) = None"
    "responses ex_pending = [''list_drivers-5'' \<mapsto> []]"
    by (simp_all add: ex_pending_def ex_client_def NewDriverManagerClient_def)
  show ?thesis
    by (simp add: c sendRequest_responses sendRequest_healthy request_id_ex)
qed

end
